theory Spec2Isabelle
  imports Main
begin

section \<open>Go library functions used by the engine\<close>

text \<open>
  Go strings are byte sequences; they are modelled by \<open>string\<close> (a list of 8-bit
  characters). The functions of package \<open>strings\<close> that the engine calls with a
  one-byte separator or an ASCII cut set work byte by byte and are written out here.
\<close>

text \<open>\<open>strings.HasPrefix(s, prefix)\<close>.\<close>

fun HasPrefix :: "string \<Rightarrow> string \<Rightarrow> bool" where
  "HasPrefix s [] = True"
| "HasPrefix [] (p # ps) = False"
| "HasPrefix (x # xs) (p # ps) = (x = p \<and> HasPrefix xs ps)"

text \<open>\<open>strings.Contains(s, substr)\<close>; \<open>strings.Index(s, substr) == -1\<close> is its negation.\<close>

fun Contains :: "string \<Rightarrow> string \<Rightarrow> bool" where
  "Contains [] sub = (sub = [])"
| "Contains (x # xs) sub = (HasPrefix (x # xs) sub \<or> Contains xs sub)"

text \<open>
  \<open>strings.Split(s, sep)\<close> for a separator of one byte (the engine only splits at
  \<open>","\<close>, \<open>"="\<close> and \<open>":"\<close>): the pieces between the separators, in order. The
  result is never empty; a string without the separator gives the one-element list of
  the string itself.
\<close>

fun Split :: "string \<Rightarrow> char \<Rightarrow> string list" where
  "Split [] c = [[]]"
| "Split (x # xs) c =
     (if x = c then [] # Split xs c
      else (x # hd (Split xs c)) # tl (Split xs c))"

text \<open>\<open>strings.Trim(s, cutset)\<close> for a cut set of ASCII bytes.\<close>

definition Trim :: "string \<Rightarrow> string \<Rightarrow> string" where
  "Trim s cutset =
     rev (dropWhile (\<lambda>c. c \<in> set cutset) (rev (dropWhile (\<lambda>c. c \<in> set cutset) s)))"

section \<open>The workflow runtime: data\<close>

text \<open>
  An \<open>error\<close> value of Go carries its message. A run-time panic (a nil dereference, an
  index out of range) is a value of its own, so that every way in which a function can
  fail to return normally is a branch of the model.
\<close>

datatype error = Err string | Panic string

text \<open>The text of an error, as \<open>%v\<close> prints it.\<close>

fun error_text :: "error \<Rightarrow> string" where
  "error_text (Err msg) = msg"
| "error_text (Panic msg) = ''panic: '' @ msg"

text \<open>
  The values of the state map (\<open>data.Map\<close>, a \<open>map[string]interface{}\<close>): strings,
  nested maps, and Go objects that the engine stores but never inspects (the current
  task, the activity), kept by a label.
\<close>

datatype val = Str string | Obj "(string \<times> val) list" | Opaque string

type_synonym State = "string \<rightharpoonup> val"

text \<open>
  The types \<open>Variable\<close>, \<open>ServiceAction\<close>, \<open>WorkflowTask\<close>, \<open>Workflow\<close> and
  \<open>WorkflowRunRequest\<close> are declared in other files of the package; the records hold the
  fields that the workflow service reads.
\<close>

record Variable =
  Var_Name :: string
  Var_From :: string
  Var_Value :: string
  Var_Required :: bool

type_synonym Variables = "Variable list"

record ServiceAction =
  Action_Service :: string
  Action_Action :: string
  Action_Tag :: string
  Action_Request :: val
  Action_RunCriteria :: string
  Action_Init :: Variables
  Action_Post :: Variables
  Action_Async :: bool
  Action_SleepInMs :: int

record WorkflowTask =
  Task_Name :: string
  Task_Init :: Variables
  Task_Post :: Variables
  Task_RunCriteria :: string
  Task_Actions :: "ServiceAction list"
  Task_TimeSpentMs :: int

record Workflow =
  Workflow_Name :: string
  Workflow_SourceURL :: string
  Workflow_Data :: "(string \<times> val) list"
  Workflow_Init :: Variables
  Workflow_Post :: Variables
  Workflow_Tasks :: "WorkflowTask list"
  Workflow_SleepInMs :: int

record WorkflowRunRequest =
  Req_Name :: string
  Req_WorkflowURL :: string
  Req_Tasks :: string
  Req_Params :: "(string \<times> val) list"
  Req_PublishParameters :: bool
  Req_Async :: bool

text \<open>The response of a workflow run: \<open>WorkflowRunResponse{SessionID, Data}\<close>.\<close>

record WorkflowRunResponse =
  Resp_SessionID :: string
  Resp_Data :: State

text \<open>
  What the workflow service calls in other files of the package and in its libraries,
  taken as parameters:
  \<^item> \<open>Expand\<close>: \<open>context.Expand(text)\<close>, the expansion of a text against the state;
  \<^item> \<open>ExpandVal\<close>: \<open>state.Expand(value)\<close>, the same for any value;
  \<^item> \<open>Check\<close>: \<open>Validator.Check(expected, actual)\<close>;
  \<^item> \<open>TrimSpace\<close>: \<open>strings.TrimSpace\<close> (it trims Unicode white space);
  \<^item> \<open>AsInt\<close>: \<open>toolbox.AsInt\<close>;
  \<^item> \<open>Validate\<close>: \<open>Workflow.Validate()\<close>;
  \<^item> \<open>Apply\<close>: \<open>Variables.Apply(source, target)\<close> for a target that is another map
    than the source: the target as it leaves it, and its error;
  \<^item> \<open>ApplySelf\<close>: \<open>Variables.Apply(state, state)\<close>, source and target being the same
    map;
  \<^item> \<open>callService\<close>: in \<open>runAction\<close>, the steps from \<open>context.Service\<close> to the
    conversion of the service's response into the response map (the look-up of the
    service, the expansion and conversion of the request, \<open>service.Run\<close>): the state
    as these steps leave it, and the response map or the error of the first step that
    fails;
  \<^item> \<open>runAsync\<close>: the error, if any, with which the concurrent workers of
    \<open>runAsyncActions\<close> leave a non-empty group of actions;
  \<^item> \<open>RepoResource\<close>: \<open>WorkflowDao.NewRepoResource\<close>, the URL of the repository
    resource \<open>workflow/<name>.csv\<close>;
  \<^item> \<open>DaoLoad\<close>: \<open>WorkflowDao.Load\<close> of the workflow at a URL;
  \<^item> \<open>ResourceText\<close>: the text that \<open>%v\<close> prints for the \<open>*url.Resource\<close> of a URL (the
    fields of the struct, not the URL alone).
\<close>

record externals =
  Expand :: "State \<Rightarrow> string \<Rightarrow> string"
  ExpandVal :: "State \<Rightarrow> val \<Rightarrow> val"
  Check :: "string \<Rightarrow> string \<Rightarrow> bool \<times> error option"
  TrimSpace :: "string \<Rightarrow> string"
  AsInt :: "string \<Rightarrow> int"
  Validate :: "Workflow \<Rightarrow> error option"
  Apply :: "Variables \<Rightarrow> State \<Rightarrow> State \<Rightarrow> State \<times> error option"
  ApplySelf :: "Variables \<Rightarrow> State \<Rightarrow> State \<times> error option"
  callService :: "State \<Rightarrow> ServiceAction \<Rightarrow> State \<times> (error + State)"
  runAsync :: "State \<Rightarrow> ServiceAction list \<Rightarrow> error option"
  RepoResource :: "State \<Rightarrow> string \<Rightarrow> error + string"
  DaoLoad :: "State \<Rightarrow> string \<Rightarrow> error + Workflow"
  ResourceText :: "string \<Rightarrow> string"

section \<open>The workflow runtime: operations\<close>

text \<open>
  \<open>workflowService.Register\<close>: the registry is a \<open>map[string]*Workflow\<close>; the model
  returns the registry as the call leaves it, and the error.
\<close>

definition Register ::
  "externals \<Rightarrow> (string \<rightharpoonup> Workflow) \<Rightarrow> Workflow \<Rightarrow> (string \<rightharpoonup> Workflow) \<times> error option" where
  "Register X registry workflow =
     (case Validate X workflow of
        Some err \<Rightarrow> (registry, Some err)
      | None \<Rightarrow> (registry(Workflow_Name workflow \<mapsto> workflow), None))"

text \<open>\<open>workflowService.HasWorkflow\<close> and \<open>workflowService.Workflow\<close>.\<close>

definition HasWorkflow :: "(string \<rightharpoonup> Workflow) \<Rightarrow> string \<Rightarrow> bool" where
  "HasWorkflow registry name = (registry name \<noteq> None)"

definition Workflow_lookup :: "(string \<rightharpoonup> Workflow) \<Rightarrow> string \<Rightarrow> error + Workflow" where
  "Workflow_lookup registry name =
     (case registry name of
        Some result \<Rightarrow> Inr result
      | None \<Rightarrow> Inl (Err (''Failed to lookup workflow: '' @ name)))"

text \<open>
  \<open>workflowService.evaluateRunCriteria\<close>. The event it adds to the context is not
  part of the model. \<open>fragments ! 1\<close> is in range: a criterion with a colon splits into
  two pieces at least (lemma \<open>Split_two\<close> below).
\<close>

definition evaluateRunCriteria :: "externals \<Rightarrow> State \<Rightarrow> string \<Rightarrow> bool \<times> error option" where
  "evaluateRunCriteria X state criteria =
     (if criteria = [] then (True, None)
      else if \<not> Contains criteria '':'' then
        (False, Some (Err (''Run criteria needs to have colon: but had: '' @ criteria)))
      else
        (let fragments = Split criteria (CHR '':'');
             actualOperand = Expand X state (TrimSpace X (fragments ! 0));
             expectedOperand = Expand X state (TrimSpace X (fragments ! 1))
         in Check X expectedOperand actualOperand))"

text \<open>
  A \<open>map[int]bool\<close> as an association list with one pair for each key; \<open>nil\<close> and the
  empty map both have length 0 and answer \<open>false\<close> for every key.
\<close>

definition map_put :: "int \<Rightarrow> bool \<Rightarrow> (int \<times> bool) list \<Rightarrow> (int \<times> bool) list" where
  "map_put k v m = (k, v) # filter (\<lambda>p. fst p \<noteq> k) m"

definition map_get :: "(int \<times> bool) list option \<Rightarrow> int \<Rightarrow> bool" where
  "map_get m k = (case m of None \<Rightarrow> False
                  | Some kvs \<Rightarrow> (case map_of kvs k of None \<Rightarrow> False | Some b \<Rightarrow> b))"

definition map_len :: "(int \<times> bool) list option \<Rightarrow> nat" where
  "map_len m = (case m of None \<Rightarrow> 0 | Some kvs \<Rightarrow> length kvs)"

text \<open>
  \<open>isTaskAllowed\<close>: the loop over the entries of \<open>request.Tasks\<close>. \<open>encodedTask\<close> is
  \<open>nil\<close> (the empty list) unless the entry does \<^emph>\<open>not\<close> contain \<open>"="\<close>, as the source
  has it; \<open>actions\<close> is \<open>nil\<close> (\<open>None\<close>) unless \<open>encodedTask\<close> has two elements.
\<close>

fun isTaskAllowed_entries ::
  "externals \<Rightarrow> string \<Rightarrow> string list \<Rightarrow> bool \<times> (int \<times> bool) list option" where
  "isTaskAllowed_entries X name [] = (False, None)"
| "isTaskAllowed_entries X name (task # tasks) =
     (let encodedTask = (if \<not> Contains task ''='' then Split task (CHR ''='') else []);
          taskName = (if \<not> Contains task ''='' then hd encodedTask else task)
      in if taskName = name then
           (True,
            if length encodedTask = 2 then
              Some (fold (\<lambda>allowedIndex actions. map_put (AsInt X allowedIndex) True actions)
                      (Split (encodedTask ! 1) (CHR '':'')) [])
            else None)
         else isTaskAllowed_entries X name tasks)"

definition isTaskAllowed ::
  "externals \<Rightarrow> WorkflowTask \<Rightarrow> WorkflowRunRequest \<Rightarrow> bool \<times> (int \<times> bool) list option" where
  "isTaskAllowed X candidate request =
     (if Req_Tasks request = [] \<or> Req_Tasks request = ''*'' then (True, None)
      else isTaskAllowed_entries X (Task_Name candidate) (Split (Req_Tasks request) (CHR '','')))"

text \<open>
  \<open>workflowService.runAction\<close>. The state map is changed in place, so the model
  returns the state as the call leaves it together with the error. The activity stored
  under \<open>"activity"\<close> is an object the engine does not read back; events and the final
  sleep are not part of the model.
\<close>

definition runAction :: "externals \<Rightarrow> State \<Rightarrow> ServiceAction \<Rightarrow> State \<times> error option" where
  "runAction X state0 action =
     (let state = state0(''activity'' \<mapsto> Opaque ''activity'')
      in case evaluateRunCriteria X state (Action_RunCriteria action) of
           (_, Some err) \<Rightarrow> (state, Some err)
         | (canRun, None) \<Rightarrow>
             if \<not> canRun then (state, None)
             else
               (case ApplySelf X (Action_Init action) state of
                  (state1, Some err) \<Rightarrow> (state1, Some err)
                | (state1, None) \<Rightarrow>
                    (case callService X state1 action of
                       (state2, Inl err) \<Rightarrow> (state2, Some err)
                     | (state2, Inr responseMap) \<Rightarrow>
                         Apply X (Action_Post action) responseMap state2)))"

text \<open>
  The loop of \<open>runTask\<close> over the actions of a task, from index \<open>i\<close>: asynchronous
  actions are collected, a synchronous action runs unless a non-empty map of allowed
  indices leaves its index out, and the first failing action ends the loop.
\<close>

fun runTask_actions ::
  "externals \<Rightarrow> bool \<Rightarrow> (int \<times> bool) list option \<Rightarrow> State \<Rightarrow> int \<Rightarrow> ServiceAction list \<Rightarrow>
   ServiceAction list \<Rightarrow> State \<times> ServiceAction list \<times> error option" where
  "runTask_actions X hasAllowedActions allowedServiceActions state i [] asyncActions =
     (state, asyncActions, None)"
| "runTask_actions X hasAllowedActions allowedServiceActions state i (action # actions) asyncActions =
     (if Action_Async action then
        runTask_actions X hasAllowedActions allowedServiceActions state (i + 1) actions
          (asyncActions @ [action])
      else if hasAllowedActions \<and> \<not> map_get allowedServiceActions i then
        runTask_actions X hasAllowedActions allowedServiceActions state (i + 1) actions asyncActions
      else
        (case runAction X state action of
           (state1, Some err) \<Rightarrow>
             (state1, asyncActions,
              Some (Err (''Failed to run action:'' @ Action_Tag action @ '' '' @ error_text err)))
         | (state1, None) \<Rightarrow>
             runTask_actions X hasAllowedActions allowedServiceActions state1 (i + 1) actions
               asyncActions))"

text \<open>
  \<open>workflowService.runAsyncActions\<close>: nothing happens for an empty group; the workers
  of a non-empty group run on clones of the context.
\<close>

definition runAsyncActions :: "externals \<Rightarrow> State \<Rightarrow> ServiceAction list \<Rightarrow> error option" where
  "runAsyncActions X state asyncAction =
     (if length asyncAction > 0 then runAsync X state asyncAction else None)"

text \<open>\<open>workflowService.runTask\<close>.\<close>

definition runTask ::
  "externals \<Rightarrow> State \<Rightarrow> Workflow \<Rightarrow> WorkflowTask \<Rightarrow> WorkflowRunRequest \<Rightarrow> State \<times> error option" where
  "runTask X state0 workflow task request =
     (let state = state0('':task'' \<mapsto> Opaque (Task_Name task));
          (taskAllowed, allowedServiceActions) = isTaskAllowed X task request
      in if \<not> taskAllowed then (state, None)
         else
           (let hasAllowedActions = (map_len allowedServiceActions > 0)
            in case ApplySelf X (Task_Init task) state of
                 (state1, Some err) \<Rightarrow> (state1, Some err)
               | (state1, None) \<Rightarrow>
                   (case evaluateRunCriteria X state1 (Task_RunCriteria task) of
                      (_, Some err) \<Rightarrow> (state1, Some err)
                    | (canRun, None) \<Rightarrow>
                        if \<not> canRun then (state1, None)
                        else
                          (case runTask_actions X hasAllowedActions allowedServiceActions state1 0
                                  (Task_Actions task) [] of
                             (state2, _, Some err) \<Rightarrow> (state2, Some err)
                           | (state2, asyncActions, None) \<Rightarrow>
                               (case runAsyncActions X state2 asyncActions of
                                  Some err \<Rightarrow> (state2, Some err)
                                | None \<Rightarrow> ApplySelf X (Task_Post task) state2)))))"

text \<open>The loop of \<open>runWorkflow\<close> over the tasks: the first error ends it.\<close>

fun runWorkflow_tasks ::
  "externals \<Rightarrow> State \<Rightarrow> Workflow \<Rightarrow> WorkflowTask list \<Rightarrow> WorkflowRunRequest \<Rightarrow>
   State \<times> error option" where
  "runWorkflow_tasks X state workflow [] request = (state, None)"
| "runWorkflow_tasks X state workflow (task # tasks) request =
     (case runTask X state workflow task request of
        (state1, Some err) \<Rightarrow> (state1, Some err)
      | (state1, None) \<Rightarrow> runWorkflow_tasks X state1 workflow tasks request)"

text \<open>
  \<open>workflowService.loadWorkflow\<close> and \<open>loadWorkflowIfNeeded\<close>: the registry as they
  leave it, and the error. The resource of a workflow is given by its URL; the messages
  print the resource itself with \<open>%v\<close>.
\<close>

definition loadWorkflow ::
  "externals \<Rightarrow> (string \<rightharpoonup> Workflow) \<Rightarrow> State \<Rightarrow> string \<Rightarrow> (string \<rightharpoonup> Workflow) \<times> error option" where
  "loadWorkflow X registry state source =
     (case DaoLoad X state source of
        Inl err \<Rightarrow>
          (registry, Some (Err (''Failed to load workflow: '' @ ResourceText X source @ '', '' @ error_text err)))
      | Inr workflow \<Rightarrow>
          (case Register X registry workflow of
             (registry1, Some err) \<Rightarrow>
               (registry1,
                Some (Err (''Failed to register workflow: '' @ ResourceText X source @ '', '' @ error_text err)))
           | (registry1, None) \<Rightarrow> (registry1, None)))"

definition loadWorkflowIfNeeded ::
  "externals \<Rightarrow> (string \<rightharpoonup> Workflow) \<Rightarrow> State \<Rightarrow> string \<Rightarrow> string \<Rightarrow>
   (string \<rightharpoonup> Workflow) \<times> error option" where
  "loadWorkflowIfNeeded X registry state name URL =
     (if \<not> HasWorkflow registry name then
        (if URL = [] then
           (case RepoResource X state name of
              Inl err \<Rightarrow> (registry, Some err)
            | Inr workflowResource \<Rightarrow> loadWorkflow X registry state workflowResource)
         else loadWorkflow X registry state URL)
      else (registry, None))"

text \<open>
  \<open>buildParamsMap\<close>, and the publication of the parameters into the state. A Go map is
  walked in no fixed order; the association list is walked in its own order.
\<close>

definition buildParamsMap :: "externals \<Rightarrow> State \<Rightarrow> (string \<times> val) list \<Rightarrow> (string \<times> val) list" where
  "buildParamsMap X state params =
     map (\<lambda>(k, v). case v of Str text \<Rightarrow> (k, Str (Expand X state text)) | _ \<Rightarrow> (k, v)) params"

fun publishParameters :: "externals \<Rightarrow> State \<Rightarrow> (string \<times> val) list \<Rightarrow> State" where
  "publishParameters X state [] = state"
| "publishParameters X state ((key, v) # params) =
     publishParameters X (state(key \<mapsto> ExpandVal X state v)) params"

text \<open>
  \<open>workflowService.runWorkflow\<close>, on the state of the cloned context. The result is
  the registry as the call leaves it and either the error or the response. The result
  of \<open>workflow.Post.Apply(state, response.Data)\<close> is the map that \<open>Apply\<close> leaves in
  \<open>response.Data\<close>; the error that \<open>Apply\<close> returns there is not looked at, as in the
  source. The event logger, the stack of running workflows and the sleeps are not part
  of the model.
\<close>

definition runWorkflow ::
  "externals \<Rightarrow> (string \<rightharpoonup> Workflow) \<Rightarrow> string \<Rightarrow> State \<Rightarrow> WorkflowRunRequest \<Rightarrow>
   (string \<rightharpoonup> Workflow) \<times> (error + WorkflowRunResponse)" where
  "runWorkflow X registry SessionID state0 request =
     (case loadWorkflowIfNeeded X registry state0 (Req_Name request) (Req_WorkflowURL request) of
        (registry1, Some err) \<Rightarrow> (registry1, Inl err)
      | (registry1, None) \<Rightarrow>
          (case Workflow_lookup registry1 (Req_Name request) of
             Inl err \<Rightarrow> (registry1, Inl err)
           | Inr workflow \<Rightarrow>
               if Workflow_SourceURL workflow = [] then
                 (registry1, Inl (Err (''workflow.Source was empty '' @ Workflow_Name workflow)))
               else
                 (let state1 = state0(''ownerURL'' \<mapsto> Str (Workflow_SourceURL workflow),
                                      ''data'' \<mapsto> Obj (Workflow_Data workflow));
                      params = buildParamsMap X state1 (Req_Params request);
                      state2 = (if Req_PublishParameters request
                                then publishParameters X state1 params else state1);
                      state3 = state2(''params'' \<mapsto> Obj params)
                  in case ApplySelf X (Workflow_Init workflow) state3 of
                       (state4, Some err) \<Rightarrow> (registry1, Inl err)
                     | (state4, None) \<Rightarrow>
                         (case runWorkflow_tasks X state4 workflow (Workflow_Tasks workflow) request of
                            (state5, Some err) \<Rightarrow> (registry1, Inl err)
                          | (state5, None) \<Rightarrow>
                              (let Data = fst (Apply X (Workflow_Post workflow) state5 Map.empty)
                               in (registry1,
                                   Inr \<lparr>Resp_SessionID = SessionID, Resp_Data = Data\<rparr>))))))"

section \<open>The log validator: data\<close>

text \<open>
  A \<open>*LogRecord\<close> is modelled by an address, an index into the store of the records
  allocated so far; the fields of a record are set when it is allocated and never
  written again. Two records with equal fields at two addresses are two pointers, as
  in Go, where \<open>candidate == result\<close> compares addresses. An index outside the store
  stands for a pointer that cannot be dereferenced (\<open>nil\<close>).
\<close>

record LogRecord =
  Rec_URL :: string
  Rec_Number :: int
  Rec_Line :: string

type_synonym ref = nat

type_synonym heap = "LogRecord list"

definition deref :: "heap \<Rightarrow> ref \<Rightarrow> error + LogRecord" where
  "deref h r = (if r < length h then Inr (h ! r) else Inl (Panic ''nil pointer dereference''))"

text \<open>\<open>&LogRecord{...}\<close>: the new address and the store with the record in it.\<close>

definition alloc :: "heap \<Rightarrow> LogRecord \<Rightarrow> ref \<times> heap" where
  "alloc h v = (length h, h @ [v])"

record LogProcessingState =
  PS_Line :: int
  PS_Position :: int

text \<open>
  A compiled regular expression (\<open>*regexp.Regexp\<close>) is taken by what
  \<open>FindStringSubmatch\<close> returns on an input: the empty list (\<open>nil\<close>) when the input
  does not match, else the match followed by the text of each group;
  \<open>MatchString\<close> holds exactly when that list is not empty.
\<close>

type_synonym regexp = "string \<Rightarrow> string list"

text \<open>\<open>LogType\<close> is declared in another file of the package; the fields the service reads.\<close>

record LogType =
  LT_Name :: string
  LT_Mask :: string
  LT_Inclusion :: string
  LT_Exclusion :: string
  LT_IndexRegExpr :: string

text \<open>
  \<open>LogFile\<close>. Instants (\<open>time.Time\<close>) are counts of nanoseconds; the mutex is not
  part of the sequential model. \<open>IndexedRecords\<close> is a map that has been made
  (\<open>readLogFile\<close> makes it with the file).
\<close>

record LogFile =
  LF_URL :: string
  LF_Content :: string
  LF_Name :: string
  LF_LogType :: LogType
  ProcessingState :: LogProcessingState
  LastModified :: int
  Size :: int
  Records :: "ref list"
  IndexedRecords :: "string \<rightharpoonup> ref"

text \<open>
  \<open>LogTypeMeta\<close>: \<open>LogFiles\<close> is a \<open>map[string]*LogFile\<close> that the service walks with
  \<open>range\<close>; it is an association list with one pair for each file name, and the
  order of the list stands for the order in which Go happens to walk the map.
\<close>

record Resource =
  Res_URL :: string
  Res_Credential :: string

record LogTypeMeta =
  Meta_Source :: Resource
  Meta_LogType :: LogType
  LogFiles :: "(string \<times> LogFile) list"

text \<open>The state of the service: the \<open>LogTypeMeta\<close> stored under each key.\<close>

type_synonym service_state = "string \<rightharpoonup> LogTypeMeta"

text \<open>A \<open>storage.Object\<close>: its URL, whether it is a folder, and its \<open>FileInfo\<close>.\<close>

record StorageObject =
  SO_URL :: string
  SO_IsFolder :: bool
  SO_Size :: int
  SO_ModTime :: int

text \<open>A \<open>storage.Service\<close>, by what \<open>List\<close> and \<open>Download\<close> answer.\<close>

record Storage =
  List :: "string \<Rightarrow> error + StorageObject list"
  Download :: "StorageObject \<Rightarrow> error + string"

text \<open>
  \<open>assertly.Failure\<close> and \<open>assertly.Validation\<close>, by the fields that the service
  sets: \<open>AddFailure\<close> appends a failure, \<open>MergeFrom\<close> appends the failures of another
  validation and adds its count of passed checks.
\<close>

record Failure =
  F_Path :: string
  F_Message :: string
  F_Expected :: val

record Validation =
  V_TagID :: string
  V_Description :: string
  V_Failures :: "Failure list"
  V_PassedCount :: int

definition AddFailure :: "Validation \<Rightarrow> Failure \<Rightarrow> Validation" where
  "AddFailure v f = v\<lparr>V_Failures := V_Failures v @ [f]\<rparr>"

definition MergeFrom :: "Validation \<Rightarrow> Validation \<Rightarrow> Validation" where
  "MergeFrom v other =
     v\<lparr>V_Failures := V_Failures v @ V_Failures other,
       V_PassedCount := V_PassedCount v + V_PassedCount other\<rparr>"

text \<open>
  What the log validator calls in other files of the package and in its libraries,
  taken as parameters:
  \<^item> \<open>UseIndex\<close> and \<open>GetIndexExpr\<close>: the methods of \<open>LogType\<close>;
  \<^item> \<open>CompileMask\<close>: \<open>regexp.Compile\<close> of an anchored mask, by the \<open>MatchString\<close> of the
    result;
  \<^item> \<open>URLSplit\<close>: \<open>toolbox.URLSplit\<close>, the parent and the name of a URL;
  \<^item> \<open>ExpandResource\<close>: \<open>context.ExpandResource\<close>;
  \<^item> \<open>NewServiceForURL\<close>: \<open>storage.NewServiceForURL\<close>, and \<open>getStorageService\<close>, which
    the tailer asks for its own client;
  \<^item> \<open>IsMap\<close>, \<open>IsSlice\<close>, \<open>IsStruct\<close>, \<open>AsString\<close>, \<open>AsJSONText\<close>: the functions of
    \<open>toolbox\<close> on an expected record;
  \<^item> \<open>LineAsMap\<close>: \<open>LogRecord.AsMap\<close>, the JSON decoding of a line;
  \<^item> \<open>Assert\<close>: \<open>Assert(context, path, expected, actual)\<close>, the comparison of an
    expected with an actual record; the path \<open>filename:number\<close> is given by its two
    parts;
  \<^item> \<open>tailer\<close>: what the tailers that earlier \<open>listen\<close> calls started do to the store
    and the state of the service while \<open>assert\<close> sleeps; its argument counts the
    sleeps of the call so far.
\<close>

record logenv =
  UseIndex :: "LogType \<Rightarrow> bool"
  GetIndexExpr :: "LogType \<Rightarrow> error + regexp"
  CompileMask :: "string \<Rightarrow> error + (string \<Rightarrow> bool)"
  URLSplit :: "string \<Rightarrow> string \<times> string"
  ExpandResource :: "Resource \<Rightarrow> error + Resource"
  NewServiceForURL :: "string \<Rightarrow> string \<Rightarrow> error + Storage"
  getStorageService :: "Resource \<Rightarrow> error + Storage"
  IsMap :: "val \<Rightarrow> bool"
  IsSlice :: "val \<Rightarrow> bool"
  IsStruct :: "val \<Rightarrow> bool"
  AsString :: "val \<Rightarrow> string"
  AsJSONText :: "val \<Rightarrow> string"
  LineAsMap :: "string \<Rightarrow> error + val"
  Assert :: "string \<Rightarrow> int \<Rightarrow> val \<Rightarrow> val \<Rightarrow> error + Validation"
  tailer :: "nat \<Rightarrow> heap \<times> service_state \<Rightarrow> heap \<times> service_state"

section \<open>The log validator: log files\<close>

text \<open>\<open>LogProcessingState.Update\<close> and \<open>LogProcessingState.Reset\<close>.\<close>

definition Update :: "LogProcessingState \<Rightarrow> int \<Rightarrow> int \<Rightarrow> LogProcessingState" where
  "Update s position lineNumber =
     s\<lparr>PS_Line := lineNumber, PS_Position := PS_Position s + position\<rparr>"

definition PS_Reset :: "LogProcessingState \<Rightarrow> LogProcessingState" where
  "PS_Reset s = s\<lparr>PS_Line := 0, PS_Position := 0\<rparr>"

text \<open>\<open>LogFile.ShiftLogRecord\<close>: the result (\<open>None\<close> for \<open>nil\<close>) and the file.\<close>

definition ShiftLogRecord :: "LogFile \<Rightarrow> ref option \<times> LogFile" where
  "ShiftLogRecord f =
     (if length (Records f) = 0 then (None, f)
      else (Some (hd (Records f)), f\<lparr>Records := tl (Records f)\<rparr>))"

text \<open>\<open>LogFile.ShiftLogRecordByIndex\<close>.\<close>

definition ShiftLogRecordByIndex :: "LogFile \<Rightarrow> string \<Rightarrow> ref option \<times> LogFile" where
  "ShiftLogRecordByIndex f v =
     (if length (Records f) = 0 then (None, f)
      else
        (case IndexedRecords f v of
           None \<Rightarrow> (Some (hd (Records f)), f\<lparr>Records := tl (Records f)\<rparr>)
         | Some result \<Rightarrow>
             (Some result, f\<lparr>Records := filter (\<lambda>candidate. candidate \<noteq> result) (Records f)\<rparr>)))"

text \<open>\<open>matchLogIndex\<close>.\<close>

definition matchLogIndex :: "regexp \<Rightarrow> string \<Rightarrow> string" where
  "matchLogIndex expr input =
     (if expr input \<noteq> [] then
        (let matches = expr input in if length matches > 1 then matches ! 1 else [])
      else [])"

text \<open>
  \<open>LogFile.PushLogRecord\<close>: the record is appended first; its line is read only when
  the type uses an index whose expression compiles.
\<close>

definition PushLogRecord :: "logenv \<Rightarrow> heap \<Rightarrow> LogFile \<Rightarrow> ref \<Rightarrow> error + LogFile" where
  "PushLogRecord E h f r =
     (let f1 = f\<lparr>Records := Records f @ [r]\<rparr>
      in if UseIndex E (LF_LogType f) then
           (case GetIndexExpr E (LF_LogType f) of
              Inl err \<Rightarrow> Inr f1
            | Inr expr \<Rightarrow>
                (case deref h r of
                   Inl panic \<Rightarrow> Inl panic
                 | Inr record \<Rightarrow>
                     (let indexValue = matchLogIndex expr (Rec_Line record)
                      in if indexValue \<noteq> [] then
                           Inr (f1\<lparr>IndexedRecords := (IndexedRecords f1)(indexValue \<mapsto> r)\<rparr>)
                         else Inr f1)))
         else Inr f1)"

text \<open>\<open>LogFile.Reset(object)\<close> and \<open>LogFile.HasPendingLogs\<close>.\<close>

definition Reset :: "LogFile \<Rightarrow> StorageObject \<Rightarrow> LogFile" where
  "Reset f object =
     f\<lparr>Size := SO_Size object, LastModified := SO_ModTime object,
       ProcessingState := PS_Reset (ProcessingState f)\<rparr>"

definition HasPendingLogs :: "LogFile \<Rightarrow> bool" where
  "HasPendingLogs f = (length (Records f) > 0)"

text \<open>
  \<open>string(data[i])\<close> turns a byte into the UTF-8 text of the code point of that number:
  one byte below 128, two bytes from 128 on.
\<close>

definition string_of_byte :: "char \<Rightarrow> string" where
  "string_of_byte b =
     (let n = (of_char b :: nat)
      in if n < 128 then [b] else [char_of (192 + n div 64), char_of (128 + n mod 64)])"

text \<open>
  The loop of \<open>LogFile.readLogRecords\<close> over the bytes from the start position on, with
  the variables \<open>line\<close>, \<open>dataProcessed\<close> and \<open>lineIndex\<close> of the source.
\<close>

fun readLogRecords_loop ::
  "logenv \<Rightarrow> string \<Rightarrow> string \<Rightarrow> int \<Rightarrow> int \<Rightarrow> heap \<Rightarrow> LogFile \<Rightarrow> error + (heap \<times> LogFile)" where
  "readLogRecords_loop E [] line dataProcessed lineIndex h f = Inr (h, f)"
| "readLogRecords_loop E (b # rest) line dataProcessed0 lineIndex0 h f =
     (let dataProcessed = dataProcessed0 + 1;
          aChar = string_of_byte b
      in if aChar \<noteq> [CHR 0x0A] \<and> aChar \<noteq> [CHR 0x0D] then
           readLogRecords_loop E rest (line @ aChar) dataProcessed lineIndex0 h f
         else
           (let line1 = Trim line [CHR '' '', CHR 0x0D, CHR 0x09];
                lineIndex = lineIndex0 + 1;
                updated = (\<lambda>g. g\<lparr>ProcessingState :=
                                    Update (ProcessingState g) dataProcessed lineIndex\<rparr>)
            in if LT_Exclusion (LF_LogType f) \<noteq> [] \<and> Contains line1 (LT_Exclusion (LF_LogType f))
               then readLogRecords_loop E rest [] 0 lineIndex h (updated f)
               else if LT_Inclusion (LF_LogType f) \<noteq> []
                       \<and> \<not> Contains line1 (LT_Inclusion (LF_LogType f))
               then readLogRecords_loop E rest [] 0 lineIndex h (updated f)
               else if length line1 > 0 then
                 (let (r, h1) = alloc h \<lparr>Rec_URL = LF_URL f, Rec_Number = lineIndex,
                                          Rec_Line = line1\<rparr>
                  in case PushLogRecord E h1 f r of
                       Inl panic \<Rightarrow> Inl panic
                     | Inr f1 \<Rightarrow> readLogRecords_loop E rest [] 0 lineIndex h1 (updated f1))
               else readLogRecords_loop E rest [] 0 lineIndex h (updated f)))"

text \<open>
  \<open>LogFile.readLogRecords\<close> on the bytes read: nothing happens when the position is
  beyond the data; a negative position would index the data out of range.
\<close>

definition readLogRecords :: "logenv \<Rightarrow> heap \<Rightarrow> LogFile \<Rightarrow> string \<Rightarrow> error + (heap \<times> LogFile)" where
  "readLogRecords E h f data =
     (if PS_Position (ProcessingState f) > int (length data) then Inr (h, f)
      else if PS_Position (ProcessingState f) < 0 then
        Inl (Panic ''index out of range'')
      else readLogRecords_loop E (drop (nat (PS_Position (ProcessingState f))) data) []
             0 (PS_Line (ProcessingState f)) h f)"

section \<open>The log validator: reading files\<close>

definition logTypeMetaKey :: "string \<Rightarrow> string" where
  "logTypeMetaKey name = ''meta_'' @ name"

definition NewLogTypeMeta :: "Resource \<Rightarrow> LogType \<Rightarrow> LogTypeMeta" where
  "NewLogTypeMeta source logType =
     \<lparr>Meta_Source = source, Meta_LogType = logType, LogFiles = []\<rparr>"

text \<open>\<open>m[name] = file\<close> on the association list of a \<open>map[string]*LogFile\<close>.\<close>

definition files_put :: "string \<Rightarrow> LogFile \<Rightarrow> (string \<times> LogFile) list \<Rightarrow> (string \<times> LogFile) list" where
  "files_put name f files =
     (if name \<in> fst ` set files
      then map (\<lambda>p. if fst p = name then (name, f) else p) files
      else files @ [(name, f)])"

text \<open>
  A write through the pointer to a log file of the meta stored under a key: the state
  with the file replaced.
\<close>

definition store_file :: "service_state \<Rightarrow> string \<Rightarrow> string \<Rightarrow> LogFile \<Rightarrow> service_state" where
  "store_file state key name f =
     (case state key of
        None \<Rightarrow> state
      | Some meta \<Rightarrow> state(key \<mapsto> meta\<lparr>LogFiles := files_put name f (LogFiles meta)\<rparr>))"

text \<open>\<open>time.Time.Unix()\<close>: whole seconds.\<close>

definition Unix :: "int \<Rightarrow> int" where
  "Unix t = t div 1000000000"

text \<open>
  The part of \<open>readLogFile\<close> after the download, on the log file and the downloaded
  content: the detection of a shrunk or rewritten file, and the reading of the records.
\<close>

definition readLogFile_content ::
  "logenv \<Rightarrow> heap \<Rightarrow> LogFile \<Rightarrow> StorageObject \<Rightarrow> string \<Rightarrow> LogFile \<times> (error + (heap \<times> LogFile))" where
  "readLogFile_content E h logFile candidate content =
     (let fileOverridden = (length (LF_Content logFile) > length content);
          logFile1 = (if fileOverridden
                      then (Reset logFile candidate)\<lparr>LF_Content := content\<rparr>
                      else logFile);
          logFile2 = (if \<not> fileOverridden \<and> Size logFile1 < SO_Size candidate
                         \<and> \<not> HasPrefix content (LF_Content logFile1)
                      then Reset logFile1 candidate
                      else logFile1);
          logFile3 = logFile2\<lparr>LF_Content := content, Size := int (length content)\<rparr>
      in (logFile3,
          if length content > 0 then readLogRecords E h logFile3 content else Inr (h, logFile3)))"

text \<open>
  \<open>logValidatorService.readLogFile\<close>: the store and the state of the service as the
  call leaves them, and its error. The meta it returns is the one under the key of the
  type in that state.
\<close>

definition readLogFile ::
  "logenv \<Rightarrow> Storage \<Rightarrow> heap \<Rightarrow> service_state \<Rightarrow> Resource \<Rightarrow> StorageObject \<Rightarrow> LogType \<Rightarrow>
   heap \<times> service_state \<times> error option" where
  "readLogFile E service h state0 source candidate logType =
     (let key = logTypeMetaKey (LT_Name logType);
          state = (if state0 key = None then state0(key \<mapsto> NewLogTypeMeta source logType)
                   else state0)
      in case state key of
           None \<Rightarrow> (h, state, Some (Panic ''nil pointer dereference''))
         | Some result \<Rightarrow>
             (let name = snd (URLSplit E (SO_URL candidate));
                  has = map_of (LogFiles result) name;
                  isNewLogFile = (has = None);
                  logFile = (case has of
                               Some f \<Rightarrow> f
                             | None \<Rightarrow>
                                 \<lparr>LF_URL = SO_URL candidate, LF_Content = [], LF_Name = name,
                                  LF_LogType = logType,
                                  ProcessingState = \<lparr>PS_Line = 0, PS_Position = 0\<rparr>,
                                  LastModified = SO_ModTime candidate, Size = SO_Size candidate,
                                  Records = [], IndexedRecords = Map.empty\<rparr>);
                  state1 = (if isNewLogFile then store_file state key name logFile else state)
              in if \<not> isNewLogFile \<and> Size logFile = SO_Size candidate
                    \<and> Unix (LastModified logFile) = Unix (SO_ModTime candidate)
                 then (h, state1, None)
                 else
                   (case Download service candidate of
                      Inl err \<Rightarrow> (h, state1, Some err)
                    | Inr content \<Rightarrow>
                        (case readLogFile_content E h logFile candidate content of
                           (logFile3, Inl err) \<Rightarrow> (h, store_file state1 key name logFile3, Some err)
                         | (logFile3, Inr (h1, logFile4)) \<Rightarrow>
                             (h1, store_file state1 key name logFile4, None)))))"

text \<open>\<open>strings.Replace(mask, "*", ".+", len(mask))\<close>: every star is replaced.\<close>

definition Replace_star :: "string \<Rightarrow> string" where
  "Replace_star text = concat (map (\<lambda>c. if c = CHR ''*'' then ''.+'' else [c]) text)"

text \<open>
  The loops of \<open>readLogFiles\<close>: over the log types for one candidate, and over the
  candidates. The response, a map from the names of the types to their metas, is the
  list of its keys: the meta of a name is the one in the state.
\<close>

fun readLogFiles_types ::
  "logenv \<Rightarrow> Storage \<Rightarrow> Resource \<Rightarrow> StorageObject \<Rightarrow> LogType list \<Rightarrow>
   heap \<times> service_state \<times> string list \<Rightarrow> (heap \<times> service_state) \<times> (error + string list)" where
  "readLogFiles_types E service source candidate [] (h, state, response) =
     ((h, state), Inr response)"
| "readLogFiles_types E service source candidate (logType # logTypes) (h, state, response) =
     (case CompileMask E (''^'' @ Replace_star (LT_Mask logType) @ ''$'') of
        Inl err \<Rightarrow> ((h, state), Inl err)
      | Inr maskExpression \<Rightarrow>
          if maskExpression (snd (URLSplit E (SO_URL candidate))) then
            (case readLogFile E service h state source candidate logType of
               (h1, state1, Some err) \<Rightarrow> ((h1, state1), Inl err)
             | (h1, state1, None) \<Rightarrow>
                 readLogFiles_types E service source candidate logTypes
                   (h1, state1, List.insert (LT_Name logType) response))
          else readLogFiles_types E service source candidate logTypes (h, state, response))"

fun readLogFiles_candidates ::
  "logenv \<Rightarrow> Storage \<Rightarrow> Resource \<Rightarrow> StorageObject list \<Rightarrow> LogType list \<Rightarrow>
   heap \<times> service_state \<times> string list \<Rightarrow> (heap \<times> service_state) \<times> (error + string list)" where
  "readLogFiles_candidates E service source [] logTypes (h, state, response) =
     ((h, state), Inr response)"
| "readLogFiles_candidates E service source (candidate # candidates) logTypes (h, state, response) =
     (if SO_IsFolder candidate then
        readLogFiles_candidates E service source candidates logTypes (h, state, response)
      else
        (case readLogFiles_types E service source candidate logTypes (h, state, response) of
           ((h1, state1), Inl err) \<Rightarrow> ((h1, state1), Inl err)
         | ((h1, state1), Inr response1) \<Rightarrow>
             readLogFiles_candidates E service source candidates logTypes (h1, state1, response1)))"

text \<open>\<open>logValidatorService.readLogFiles\<close>.\<close>

definition readLogFiles ::
  "logenv \<Rightarrow> Storage \<Rightarrow> heap \<Rightarrow> service_state \<Rightarrow> Resource \<Rightarrow> LogType list \<Rightarrow>
   (heap \<times> service_state) \<times> (error + string list)" where
  "readLogFiles E service h state source0 logTypes =
     (case ExpandResource E source0 of
        Inl err \<Rightarrow> ((h, state), Inl err)
      | Inr source \<Rightarrow>
          (case List service (Res_URL source) of
             Inl err \<Rightarrow> ((h, state), Inl err)
           | Inr candidates \<Rightarrow>
               readLogFiles_candidates E service source candidates logTypes (h, state, [])))"

section \<open>The log validator: listen and reset\<close>

record LogValidatorListenRequest =
  Listen_Source :: Resource
  Listen_FrequencyMs :: int
  Listen_Types :: "LogType list"

text \<open>
  What a \<open>listen\<close> call leaves: the store, the state of the service, whether it has
  started a tailer, and what it returns (the response, by the names of the types in
  \<open>Meta\<close>, and the error; \<open>listen\<close> returns both when \<open>listenForChanges\<close> fails).
\<close>

record listen_result =
  L_heap :: heap
  L_state :: service_state
  L_tailer_started :: bool
  L_response :: "string list option"
  L_error :: "error option"

text \<open>The first loop of \<open>listen\<close>: the first requested type that is registered already.\<close>

fun listen_registered :: "service_state \<Rightarrow> LogType list \<Rightarrow> error option" where
  "listen_registered state [] = None"
| "listen_registered state (logType # logTypes) =
     (if state (logTypeMetaKey (LT_Name logType)) \<noteq> None then
        Some (Err (''listener has been already register for '' @ LT_Name logType))
      else listen_registered state logTypes)"

text \<open>
  The second loop of \<open>listen\<close>: the meta of each requested type is put under its key,
  the one that \<open>readLogFiles\<close> returned for the name (it is in the state under that key
  already) or else a new one, which also enters the response.
\<close>

fun listen_install ::
  "Resource \<Rightarrow> LogType list \<Rightarrow> service_state \<times> string list \<Rightarrow> service_state \<times> string list" where
  "listen_install source [] (state, logTypeMetas) = (state, logTypeMetas)"
| "listen_install source (logType # logTypes) (state, logTypeMetas) =
     (let key = logTypeMetaKey (LT_Name logType);
          found = (if LT_Name logType \<in> set logTypeMetas then state key else None)
      in case found of
           Some logMeta \<Rightarrow> listen_install source logTypes (state(key \<mapsto> logMeta), logTypeMetas)
         | None \<Rightarrow>
             listen_install source logTypes
               (state(key \<mapsto> NewLogTypeMeta source logType),
                List.insert (LT_Name logType) logTypeMetas))"

text \<open>
  \<open>logValidatorService.listenForChanges\<close>: its error, or that the tailer has been
  started. What the tailer does afterwards is not part of this function.
\<close>

definition listenForChanges :: "logenv \<Rightarrow> LogValidatorListenRequest \<Rightarrow> bool \<times> error option" where
  "listenForChanges E request =
     (case ExpandResource E (Listen_Source request) of
        Inl err \<Rightarrow> (False, Some err)
      | Inr target \<Rightarrow>
          (case getStorageService E target of
             Inl err \<Rightarrow> (False, Some err)
           | Inr service \<Rightarrow> (True, None)))"

text \<open>\<open>logValidatorService.listen\<close>.\<close>

definition listen ::
  "logenv \<Rightarrow> heap \<Rightarrow> service_state \<Rightarrow> LogValidatorListenRequest \<Rightarrow> listen_result" where
  "listen E h state request =
     (case ExpandResource E (Listen_Source request) of
        Inl err \<Rightarrow>
          \<lparr>L_heap = h, L_state = state, L_tailer_started = False, L_response = None,
           L_error = Some err\<rparr>
      | Inr source \<Rightarrow>
          (case listen_registered state (Listen_Types request) of
             Some err \<Rightarrow>
               \<lparr>L_heap = h, L_state = state, L_tailer_started = False, L_response = None,
                L_error = Some err\<rparr>
           | None \<Rightarrow>
               (case NewServiceForURL E (Res_URL (Listen_Source request))
                       (Res_Credential (Listen_Source request)) of
                  Inl err \<Rightarrow>
                    \<lparr>L_heap = h, L_state = state, L_tailer_started = False, L_response = None,
                     L_error = Some err\<rparr>
                | Inr service \<Rightarrow>
                    (case readLogFiles E service h state (Listen_Source request)
                            (Listen_Types request) of
                       ((h1, state1), Inl err) \<Rightarrow>
                         \<lparr>L_heap = h1, L_state = state1, L_tailer_started = False,
                          L_response = None, L_error = Some err\<rparr>
                     | ((h1, state1), Inr logTypeMetas) \<Rightarrow>
                         (let (state2, logTypeMetas1) =
                                listen_install source (Listen_Types request) (state1, logTypeMetas);
                              (started, err) = listenForChanges E request
                          in \<lparr>L_heap = h1, L_state = state2, L_tailer_started = started,
                              L_response = Some logTypeMetas1, L_error = err\<rparr>)))))"

record LogValidatorResetRequest =
  Reset_LogTypes :: "string list"

record LogValidatorResetResponse =
  Reset_LogFiles :: "string list"

text \<open>What \<open>reset\<close> does to one log file.\<close>

definition reset_file :: "LogFile \<Rightarrow> LogFile" where
  "reset_file logFile =
     logFile\<lparr>ProcessingState := \<lparr>PS_Line = int (length (Records logFile)),
                                  PS_Position = Size logFile\<rparr>,
             Records := []\<rparr>"

text \<open>The loop of \<open>reset\<close> over the names of the request.\<close>

fun reset_types ::
  "service_state \<Rightarrow> string list \<Rightarrow> string list \<Rightarrow> service_state \<times> string list" where
  "reset_types state [] response = (state, response)"
| "reset_types state (logTypeName # logTypeNames) response =
     (case state (logTypeMetaKey logTypeName) of
        None \<Rightarrow> reset_types state logTypeNames response
      | Some logTypeMeta \<Rightarrow>
          reset_types
            (state(logTypeMetaKey logTypeName \<mapsto>
               logTypeMeta\<lparr>LogFiles := map (\<lambda>p. (fst p, reset_file (snd p))) (LogFiles logTypeMeta)\<rparr>))
            logTypeNames
            (response @ map (\<lambda>p. LF_Name (snd p)) (LogFiles logTypeMeta)))"

text \<open>
  \<open>logValidatorService.reset\<close>: the state as it leaves it, the response and the error
  it returns.
\<close>

definition reset ::
  "service_state \<Rightarrow> LogValidatorResetRequest \<Rightarrow>
   service_state \<times> LogValidatorResetResponse \<times> error option" where
  "reset state request =
     (let (state1, files) = reset_types state (Reset_LogTypes request) []
      in (state1, \<lparr>Reset_LogFiles = files\<rparr>, None))"

section \<open>Sequences of operations on a log file\<close>

text \<open>
  A sequence of calls of \<open>PushLogRecord\<close>, \<open>ShiftLogRecord\<close> and
  \<open>ShiftLogRecordByIndex\<close> on one log file, over a store of records: the file after
  the sequence, or the panic of a call that dereferences a pointer outside the store.
\<close>
datatype LogFile_operation = Push ref | Shift | ShiftByIndex string

fun LogFile_step :: "logenv \<Rightarrow> heap \<Rightarrow> LogFile \<Rightarrow> LogFile_operation \<Rightarrow> error + LogFile" where
  "LogFile_step E h f (Push r) = PushLogRecord E h f r"
| "LogFile_step E h f Shift = Inr (snd (ShiftLogRecord f))"
| "LogFile_step E h f (ShiftByIndex key) = Inr (snd (ShiftLogRecordByIndex f key))"

fun LogFile_run :: "logenv \<Rightarrow> heap \<Rightarrow> LogFile \<Rightarrow> LogFile_operation list \<Rightarrow> error + LogFile" where
  "LogFile_run E h f [] = Inr f"
| "LogFile_run E h f (operation # operations) =
     (case LogFile_step E h f operation of
        Inl panic \<Rightarrow> Inl panic
      | Inr f1 \<Rightarrow> LogFile_run E h f1 operations)"

definition indexed_in_Records :: "LogFile \<Rightarrow> bool" where
  "indexed_in_Records f = (\<forall>key r. IndexedRecords f key = Some r \<longrightarrow> r \<in> set (Records f))"

text \<open>
  For the statement of what \<open>reset\<close> does: the names of the log files of the type
  registered under a name (none when the name is not registered), and a meta with each
  of its log files reset \<open>n\<close> times.
\<close>
definition meta_file_names :: "service_state \<Rightarrow> string \<Rightarrow> string list" where
  "meta_file_names state logTypeName =
     (case state (logTypeMetaKey logTypeName) of
        None \<Rightarrow> []
      | Some logTypeMeta \<Rightarrow> map (\<lambda>p. LF_Name (snd p)) (LogFiles logTypeMeta))"

definition reset_meta :: "nat \<Rightarrow> LogTypeMeta \<Rightarrow> LogTypeMeta" where
  "reset_meta n logTypeMeta =
     logTypeMeta\<lparr>LogFiles := map (\<lambda>p. (fst p, (reset_file ^^ n) (snd p))) (LogFiles logTypeMeta)\<rparr>"

section \<open>The log validator: the iterator of log records\<close>

text \<open>Go compares strings byte by byte: \<open>a < b\<close>.\<close>

fun string_less :: "string \<Rightarrow> string \<Rightarrow> bool" where
  "string_less [] [] = False"
| "string_less [] (y # ys) = True"
| "string_less (x # xs) [] = False"
| "string_less (x # xs) (y # ys) =
     ((of_char x :: nat) < of_char y \<or> (x = y \<and> string_less xs ys))"

text \<open>
  The order that \<open>logFileProvider\<close> gives to \<open>sort.Slice\<close>: the later modification
  first and, when neither instant is after the other, the greater URL first.
\<close>

definition file_before :: "LogFile \<Rightarrow> LogFile \<Rightarrow> bool" where
  "file_before left right =
     (if \<not> LastModified left > LastModified right \<and> \<not> LastModified right > LastModified left
      then string_less (LF_URL right) (LF_URL left)
      else LastModified left > LastModified right)"

fun insert_file :: "string \<times> LogFile \<Rightarrow> (string \<times> LogFile) list \<Rightarrow> (string \<times> LogFile) list" where
  "insert_file p [] = [p]"
| "insert_file p (q # qs) =
     (if file_before (snd p) (snd q) then p # q # qs else q # insert_file p qs)"

text \<open>
  The iterator holds pointers to the log files of one meta: the key of the meta in
  the state of the service and the names of the files, in the order of the iterator.
  \<open>logFileProvider\<close> sorts the files of the meta as they are when it is called.
\<close>

record logRecordIterator =
  it_key :: string
  logFiles :: "string list"
  logFileIndex :: nat

definition logFileProvider :: "service_state \<Rightarrow> string \<Rightarrow> string list" where
  "logFileProvider state key =
     (case state key of
        None \<Rightarrow> []
      | Some meta \<Rightarrow> map fst (foldr insert_file (LogFiles meta) []))"

definition file_of :: "service_state \<Rightarrow> string \<Rightarrow> string \<Rightarrow> LogFile option" where
  "file_of state key name =
     (case state key of None \<Rightarrow> None | Some meta \<Rightarrow> map_of (LogFiles meta) name)"

definition pending :: "service_state \<Rightarrow> string \<Rightarrow> string \<Rightarrow> bool" where
  "pending state key name =
     (case file_of state key name of None \<Rightarrow> False | Some f \<Rightarrow> HasPendingLogs f)"

text \<open>\<open>LogTypeMeta.LogRecordIterator\<close>.\<close>

definition LogRecordIterator :: "service_state \<Rightarrow> string \<Rightarrow> logRecordIterator" where
  "LogRecordIterator state key =
     \<lparr>it_key = key, logFiles = logFileProvider state key, logFileIndex = 0\<rparr>"

text \<open>The loop of \<open>HasNext\<close> over the refreshed files: the first index with pending logs.\<close>

fun first_pending :: "service_state \<Rightarrow> string \<Rightarrow> string list \<Rightarrow> nat \<Rightarrow> nat option" where
  "first_pending state key [] j = None"
| "first_pending state key (candidate # candidates) j =
     (if pending state key candidate then Some j
      else first_pending state key candidates (j + 1))"

text \<open>\<open>logRecordIterator.HasNext\<close>: its answer and the iterator as it leaves it.\<close>

function HasNext :: "service_state \<Rightarrow> logRecordIterator \<Rightarrow> bool \<times> logRecordIterator" where
  "HasNext state i =
     (if logFileIndex i \<ge> length (logFiles i) then
        (let files = logFileProvider state (it_key i)
         in case first_pending state (it_key i) files 0 of
              Some j \<Rightarrow> (True, i\<lparr>logFiles := files, logFileIndex := j\<rparr>)
            | None \<Rightarrow> (False, i\<lparr>logFiles := files\<rparr>))
      else if \<not> pending state (it_key i) (logFiles i ! logFileIndex i) then
        HasNext state (i\<lparr>logFileIndex := logFileIndex i + 1\<rparr>)
      else (True, i))"
  by pat_completeness auto
termination
  by (relation "measure (\<lambda>(state, i). length (logFiles i) - logFileIndex i)") auto

text \<open>
  \<open>logRecordIterator.Next\<close>, for an \<open>*IndexedLogRecord\<close> with the given index value
  (\<open>Some\<close>) or for a \<open>**LogRecord\<close> (\<open>None\<close>): the record it sets (\<open>None\<close> for \<open>nil\<close>) and
  the state with the file it has shifted.
\<close>

definition Next_record ::
  "service_state \<Rightarrow> logRecordIterator \<Rightarrow> string option \<Rightarrow> error + (ref option \<times> service_state)" where
  "Next_record state i indexValue =
     (if logFileIndex i \<ge> length (logFiles i) then Inl (Panic ''index out of range'')
      else
        (let name = logFiles i ! logFileIndex i
         in case file_of state (it_key i) name of
              None \<Rightarrow> Inl (Panic ''nil pointer dereference'')
            | Some logFile \<Rightarrow>
                (let (logRecord, logFile1) =
                       (case indexValue of
                          Some v \<Rightarrow> ShiftLogRecordByIndex logFile v
                        | None \<Rightarrow> ShiftLogRecord logFile)
                 in Inr (logRecord, store_file state (it_key i) name logFile1))))"

section \<open>The log validator: assert\<close>

record ExpectedLogRecord =
  Exp_TagID :: string
  Exp_Type :: string
  Exp_Records :: "val list"

record LogValidatorAssertRequest =
  Assert_Description :: string
  LogWaitTimeMs :: int
  LogWaitRetryCount :: int
  ExpectedLogRecords :: "ExpectedLogRecord list"

record LogValidatorAssertResponse =
  AResp_Description :: string
  Validations :: "Validation list"

text \<open>The events that \<open>assert\<close> adds to the context.\<close>

datatype Event = SleepEvent int | LogRecordAssertEvent string val val

text \<open>
  What \<open>assert\<close> works on: the store of records, the state of the service, the events
  added so far and the number of sleeps so far.
\<close>

record world =
  W_heap :: heap
  W_state :: service_state
  W_events :: "Event list"
  W_sleeps :: nat

text \<open>
  \<open>time.Duration(request.LogWaitTimeMs) * time.Millisecond\<close> is a product of 64-bit
  integers, which wraps around; \<open>int(logWaitDuration) / int(time.Millisecond)\<close> is a
  division that truncates towards zero.
\<close>

definition int64 :: "int \<Rightarrow> int" where
  "int64 x = (x + 2 ^ 63) mod 2 ^ 64 - 2 ^ 63"

definition quot :: "int \<Rightarrow> int \<Rightarrow> int" where
  "quot a b = sgn a * sgn b * (\<bar>a\<bar> div \<bar>b\<bar>)"

definition SleepTimeMs :: "int \<Rightarrow> int" where
  "SleepTimeMs waitTimeMs = quot (int64 (waitTimeMs * 1000000)) 1000000"

text \<open>
  The waiting loop of \<open>assert\<close>, with the number of rounds left: a round in which the
  iterator has no record adds a sleep event and sleeps, and the tailers act meanwhile.
\<close>

fun wait_for_next ::
  "logenv \<Rightarrow> int \<Rightarrow> nat \<Rightarrow> world \<Rightarrow> logRecordIterator \<Rightarrow> world \<times> logRecordIterator" where
  "wait_for_next E waitTimeMs 0 w i = (w, i)"
| "wait_for_next E waitTimeMs (Suc rounds) w i =
     (case HasNext (W_state w) i of
        (hasNext, i1) \<Rightarrow>
          if hasNext then (w, i1)
          else
            (case tailer E (W_sleeps w) (W_heap w, W_state w) of
               (h1, state1) \<Rightarrow>
                 wait_for_next E waitTimeMs rounds
                   (w\<lparr>W_heap := h1, W_state := state1,
                      W_events := W_events w @ [SleepEvent (SleepTimeMs waitTimeMs)],
                      W_sleeps := W_sleeps w + 1\<rparr>) i1))"

text \<open>\<open>logValidatorService.getLogTypeMeta\<close>.\<close>

definition getLogTypeMeta :: "service_state \<Rightarrow> ExpectedLogRecord \<Rightarrow> error + LogTypeMeta" where
  "getLogTypeMeta state expectedLogRecords =
     (case state (logTypeMetaKey (Exp_Type expectedLogRecords)) of
        None \<Rightarrow>
          Inl (Err (''failed to assert, unknown type:'' @ Exp_Type expectedLogRecords
                    @ '', please call listen function with requested log type''))
      | Some logTypeMeta \<Rightarrow> Inr logTypeMeta)"

text \<open>
  The index value with which \<open>assert\<close> asks for the record of an expected record:
  none unless the type uses an index, its expression compiles and the text of the
  expected record gives a value that is not empty.
\<close>

definition index_value :: "logenv \<Rightarrow> LogType \<Rightarrow> val \<Rightarrow> string option" where
  "index_value E logType expectedLogRecord =
     (if UseIndex E logType then
        (case GetIndexExpr E logType of
           Inl err \<Rightarrow> None
         | Inr expr \<Rightarrow>
             (let expectedTextRecord =
                    (if IsMap E expectedLogRecord \<or> IsSlice E expectedLogRecord
                        \<or> IsStruct E expectedLogRecord
                     then AsJSONText E expectedLogRecord
                     else AsString E expectedLogRecord);
                  indexValue = matchLogIndex expr expectedTextRecord
              in if indexValue \<noteq> [] then Some indexValue else None))
      else None)"

text \<open>
  The body of the loop of \<open>assert\<close> over the expected records of a group, for one
  expected record. The validation of the record is the last of the validations. The
  result is an error, or whether \<open>assert\<close> returns at once (the record is missing)
  together with the world, the iterator and the validations.
\<close>

definition assert_record ::
  "logenv \<Rightarrow> int \<Rightarrow> int \<Rightarrow> ExpectedLogRecord \<Rightarrow> LogType \<Rightarrow> val \<Rightarrow>
   world \<times> logRecordIterator \<times> Validation list \<Rightarrow>
   error + (bool \<times> world \<times> logRecordIterator \<times> Validation list)" where
  "assert_record E waitTimeMs retryCount expectedLogRecords logType expectedLogRecord wiv =
     (case wiv of (w, i, validations) \<Rightarrow>
       (let validation = \<lparr>V_TagID = Exp_TagID expectedLogRecords,
                          V_Description = ''Log Validation: '' @ Exp_Type expectedLogRecords,
                          V_Failures = [], V_PassedCount = 0\<rparr>
        in case wait_for_next E waitTimeMs (nat retryCount) w i of
             (w1, i1) \<Rightarrow>
               (case HasNext (W_state w1) i1 of
                  (hasNext, i2) \<Rightarrow>
                    if \<not> hasNext then
                      Inr (True, w1, i2,
                           validations @
                             [AddFailure validation
                                \<lparr>F_Path = ''['' @ Exp_TagID expectedLogRecords @ '']'',
                                 F_Message = ''missing log record'',
                                 F_Expected = expectedLogRecord\<rparr>])
                    else
                      (case Next_record (W_state w1) i2 (index_value E logType expectedLogRecord) of
                         Inl panic \<Rightarrow> Inl panic
                       | Inr (None, state2) \<Rightarrow> Inl (Panic ''nil pointer dereference'')
                       | Inr (Some r, state2) \<Rightarrow>
                           (case deref (W_heap w1) r of
                              Inl panic \<Rightarrow> Inl panic
                            | Inr logRecord \<Rightarrow>
                                (case (if IsMap E expectedLogRecord
                                       then LineAsMap E (Rec_Line logRecord)
                                       else Inr (Str (Rec_Line logRecord))) of
                                   Inl err \<Rightarrow> Inl err
                                 | Inr actualLogRecord \<Rightarrow>
                                     (case Assert E (snd (URLSplit E (Rec_URL logRecord)))
                                             (Rec_Number logRecord) expectedLogRecord
                                             actualLogRecord of
                                        Inl err \<Rightarrow> Inl err
                                      | Inr logValidation \<Rightarrow>
                                          Inr (False,
                                               w1\<lparr>W_state := state2,
                                                  W_events := W_events w1 @
                                                    [LogRecordAssertEvent
                                                       (Exp_TagID expectedLogRecords)
                                                       expectedLogRecord actualLogRecord]\<rparr>,
                                               i2,
                                               validations @
                                                 [MergeFrom validation logValidation]))))))))"

text \<open>The loop over the expected records of a group.\<close>

fun assert_records ::
  "logenv \<Rightarrow> int \<Rightarrow> int \<Rightarrow> ExpectedLogRecord \<Rightarrow> LogType \<Rightarrow> val list \<Rightarrow>
   world \<times> logRecordIterator \<times> Validation list \<Rightarrow>
   error + (bool \<times> world \<times> logRecordIterator \<times> Validation list)" where
  "assert_records E waitTimeMs retryCount expectedLogRecords logType [] wiv = Inr (False, wiv)"
| "assert_records E waitTimeMs retryCount expectedLogRecords logType (expectedLogRecord # rest) wiv =
     (case assert_record E waitTimeMs retryCount expectedLogRecords logType expectedLogRecord wiv of
        Inl err \<Rightarrow> Inl err
      | Inr (returned, wiv1) \<Rightarrow>
          if returned then Inr (True, wiv1)
          else assert_records E waitTimeMs retryCount expectedLogRecords logType rest wiv1)"

text \<open>The loop over the groups of expected records.\<close>

fun assert_groups ::
  "logenv \<Rightarrow> int \<Rightarrow> int \<Rightarrow> ExpectedLogRecord list \<Rightarrow> world \<times> Validation list \<Rightarrow>
   error + (world \<times> Validation list)" where
  "assert_groups E waitTimeMs retryCount [] wv = Inr wv"
| "assert_groups E waitTimeMs retryCount (expectedLogRecords # groups) wv =
     (case wv of (w, validations) \<Rightarrow>
       (case getLogTypeMeta (W_state w) expectedLogRecords of
          Inl err \<Rightarrow> Inl err
        | Inr logTypeMeta \<Rightarrow>
            (case assert_records E waitTimeMs retryCount expectedLogRecords
                    (Meta_LogType logTypeMeta) (Exp_Records expectedLogRecords)
                    (w, LogRecordIterator (W_state w) (logTypeMetaKey (Exp_Type expectedLogRecords)),
                     validations) of
               Inl err \<Rightarrow> Inl err
             | Inr (returned, w1, i1, validations1) \<Rightarrow>
                 if returned then Inr (w1, validations1)
                 else assert_groups E waitTimeMs retryCount groups (w1, validations1))))"

text \<open>
  \<open>logValidatorService.assert\<close>: the error, or the world as the call leaves it and the
  response. The store and the state that a call ending in an error leaves are not part
  of the result.
\<close>

definition assert ::
  "logenv \<Rightarrow> heap \<Rightarrow> service_state \<Rightarrow> LogValidatorAssertRequest \<Rightarrow>
   error + (world \<times> LogValidatorAssertResponse)" where
  "assert E h state request =
     (let response = \<lparr>AResp_Description = Assert_Description request, Validations = []\<rparr>;
          w = \<lparr>W_heap = h, W_state = state, W_events = [], W_sleeps = 0\<rparr>
      in if length (ExpectedLogRecords request) = 0 then Inr (w, response)
         else
           (let waitTimeMs = (if LogWaitTimeMs request = 0 then 500 else LogWaitTimeMs request);
                retryCount = (if LogWaitRetryCount request = 0 then 3
                              else LogWaitRetryCount request)
            in case assert_groups E waitTimeMs retryCount (ExpectedLogRecords request) (w, []) of
                 Inl err \<Rightarrow> Inl err
               | Inr (w1, validations) \<Rightarrow> Inr (w1, response\<lparr>Validations := validations\<rparr>)))"














section \<open>Concrete inputs\<close>

text \<open>
  Instances of the parameters and inputs at which the theorems below are evaluated.
  \<open>plain_externals\<close>: texts expand to themselves, the validator compares two texts
  for equality, blanks are trimmed, every workflow is valid, bindings and services do
  nothing, and no workflow can be loaded.
\<close>

definition plain_externals :: externals where
  "plain_externals =
     \<lparr>Expand = (\<lambda>state text. text), ExpandVal = (\<lambda>state v. v),
      Check = (\<lambda>expected actual. (expected = actual, None)),
      TrimSpace = (\<lambda>text. Trim text '' ''), AsInt = (\<lambda>text. 0), Validate = (\<lambda>workflow. None),
      Apply = (\<lambda>rules source target. (target, None)),
      ApplySelf = (\<lambda>rules state. (state, None)),
      callService = (\<lambda>state action. (state, Inr Map.empty)),
      runAsync = (\<lambda>state actions. None),
      RepoResource = (\<lambda>state name. Inr (''workflow/'' @ name @ ''.csv'')),
      DaoLoad = (\<lambda>state source. Inl (Err ''no such workflow'')),
      ResourceText = (\<lambda>url. ''&{'' @ url @ ''}'')\<rparr>"

definition action_A :: "string \<Rightarrow> ServiceAction" where
  "action_A tag = \<lparr>Action_Service = ''exec'', Action_Action = ''run'', Action_Tag = tag,
     Action_Request = Obj [], Action_RunCriteria = [], Action_Init = [], Action_Post = [],
     Action_Async = False, Action_SleepInMs = 0\<rparr>"

definition task_T1 :: WorkflowTask where
  "task_T1 = \<lparr>Task_Name = ''T1'', Task_Init = [], Task_Post = [], Task_RunCriteria = [],
     Task_Actions = [action_A ''A0'', action_A ''A1'', action_A ''A2''], Task_TimeSpentMs = 0\<rparr>"

definition request_T1_0_2 :: WorkflowRunRequest where
  "request_T1_0_2 = \<lparr>Req_Name = ''w'', Req_WorkflowURL = [], Req_Tasks = ''T1=0:2'',
     Req_Params = [], Req_PublishParameters = False, Req_Async = False\<rparr>"

definition workflow_a :: Workflow where
  "workflow_a = \<lparr>Workflow_Name = ''w'', Workflow_SourceURL = ''mem://w.csv'', Workflow_Data = [],
     Workflow_Init = [], Workflow_Post = [], Workflow_Tasks = [task_T1], Workflow_SleepInMs = 0\<rparr>"

definition workflow_b :: Workflow where
  "workflow_b = workflow_a\<lparr>Workflow_Tasks := [task_T1, task_T1\<lparr>Task_Name := ''T2''\<rparr>]\<rparr>"

text \<open>
  The run criterion as the specification words it: the text before the colon is the
  actual operand, the text after the colon the expected one.
\<close>

definition spec_evaluateRunCriteria :: "externals \<Rightarrow> State \<Rightarrow> string \<Rightarrow> bool \<times> error option" where
  "spec_evaluateRunCriteria X state criteria =
     (if criteria = [] then (True, None)
      else if CHR '':'' \<notin> set criteria then
        (False, Some (Err (''Run criteria needs to have colon: but had: '' @ criteria)))
      else Check X (Expand X state (tl (dropWhile (\<lambda>c. c \<noteq> CHR '':'') criteria)))
             (Expand X state (takeWhile (\<lambda>c. c \<noteq> CHR '':'') criteria)))"

text \<open>
  For the log validator: the expression \<open>^([^ ]*)\<close>, which matches every line and
  whose group is the text before the first blank; a log type that uses it as index;
  and \<open>plain_logenv\<close>, in which every type with an index expression uses this one, a URL
  splits at its last slash, the storage is empty, an expected record is a text or a
  map, a line decodes to a map with the line in it, the comparison passes when the
  expected and the actual record are equal and fails with one failure otherwise, and no
  tailer is at work.
\<close>

definition first_word_expr :: regexp where
  "first_word_expr input = [input, takeWhile (\<lambda>c. c \<noteq> CHR '' '') input]"

definition logType_event1 :: LogType where
  "logType_event1 = \<lparr>LT_Name = ''event1'', LT_Mask = ''*.log'', LT_Inclusion = [],
     LT_Exclusion = [], LT_IndexRegExpr = ''^([^ ]*)''\<rparr>"

definition plain_logenv :: logenv where
  "plain_logenv =
     \<lparr>UseIndex = (\<lambda>logType. LT_IndexRegExpr logType \<noteq> []),
      GetIndexExpr = (\<lambda>logType. Inr first_word_expr),
      CompileMask = (\<lambda>text. Inr (\<lambda>name. True)),
      URLSplit = (\<lambda>url. (rev (dropWhile (\<lambda>c. c \<noteq> CHR ''/'') (rev url)),
                          rev (takeWhile (\<lambda>c. c \<noteq> CHR ''/'') (rev url)))),
      ExpandResource = (\<lambda>resource. Inr resource),
      NewServiceForURL = (\<lambda>url credential. Inr \<lparr>List = (\<lambda>u. Inr []), Download = (\<lambda>object. Inr [])\<rparr>),
      getStorageService = (\<lambda>resource. Inr \<lparr>List = (\<lambda>u. Inr []), Download = (\<lambda>object. Inr [])\<rparr>),
      IsMap = (\<lambda>v. case v of Obj kvs \<Rightarrow> True | _ \<Rightarrow> False),
      IsSlice = (\<lambda>v. False), IsStruct = (\<lambda>v. False),
      AsString = (\<lambda>v. case v of Str text \<Rightarrow> text | _ \<Rightarrow> []),
      AsJSONText = (\<lambda>v. case v of Str text \<Rightarrow> text | _ \<Rightarrow> []),
      LineAsMap = (\<lambda>line. Inr (Obj [(''line'', Str line)])),
      Assert = (\<lambda>filename number expected actual.
                  Inr \<lparr>V_TagID = [], V_Description = [],
                       V_Failures = (if expected = actual then []
                                     else [\<lparr>F_Path = filename, F_Message = ''mismatch'',
                                            F_Expected = expected\<rparr>]),
                       V_PassedCount = (if expected = actual then 1 else 0)\<rparr>),
      tailer = (\<lambda>sleeps world. world)\<rparr>"

text \<open>
  A log file with nothing read; a store of three records; the file with the three
  records queued and the second one indexed under \<open>B\<close>.
\<close>

definition file_empty :: LogFile where
  "file_empty = \<lparr>LF_URL = ''mem://logs/e1.log'', LF_Content = [], LF_Name = ''e1.log'',
     LF_LogType = logType_event1, ProcessingState = \<lparr>PS_Line = 0, PS_Position = 0\<rparr>,
     LastModified = 0, Size = 0, Records = [], IndexedRecords = Map.empty\<rparr>"

definition heap_ABC :: heap where
  "heap_ABC = [\<lparr>Rec_URL = ''mem://logs/e1.log'', Rec_Number = 1, Rec_Line = ''A first''\<rparr>,
              \<lparr>Rec_URL = ''mem://logs/e1.log'', Rec_Number = 2, Rec_Line = ''B second''\<rparr>,
              \<lparr>Rec_URL = ''mem://logs/e1.log'', Rec_Number = 3, Rec_Line = ''C third''\<rparr>]"

definition file_ABC :: LogFile where
  "file_ABC = file_empty\<lparr>Records := [0, 1, 2], IndexedRecords := [''B'' \<mapsto> 1]\<rparr>"

text \<open>
  A file whose 17 bytes have been read, with one record still queued; the object and the
  content of 9 bytes that a later download finds in its place.
\<close>

definition file_old :: LogFile where
  "file_old = file_empty\<lparr>LF_Content := ''A first'' @ [CHR 0x0A] @ ''B second'' @ [CHR 0x0A],
     Size := 17, ProcessingState := \<lparr>PS_Line = 2, PS_Position = 17\<rparr>, Records := [1]\<rparr>"

definition object_new :: StorageObject where
  "object_new = \<lparr>SO_URL = ''mem://logs/e1.log'', SO_IsFolder = False, SO_Size = 9, SO_ModTime = 7\<rparr>"

definition content_new :: string where
  "content_new = ''C third'' @ [CHR 0x0A] @ ''D''"

text \<open>The state of the service that holds this file, and a storage with the new content.\<close>

definition state_old :: service_state where
  "state_old =
     [logTypeMetaKey ''event1'' \<mapsto>
        \<lparr>Meta_Source = \<lparr>Res_URL = ''mem://logs/'', Res_Credential = []\<rparr>,
         Meta_LogType = logType_event1, LogFiles = [(''e1.log'', file_old)]\<rparr>]"

definition storage_new :: Storage where
  "storage_new = \<lparr>List = (\<lambda>url. Inr [object_new]), Download = (\<lambda>object. Inr content_new)\<rparr>"

text \<open>
  The state of the service after a \<open>listen\<close> for the type \<open>event1\<close> on an empty folder, and
  the request of that call; requests to assert one record and two records with the
  default waits; a state in which the file of the type has the first record of the
  store queued and indexed under \<open>A\<close>.
\<close>

definition state_listening :: service_state where
  "state_listening =
     [logTypeMetaKey ''event1'' \<mapsto>
        NewLogTypeMeta \<lparr>Res_URL = ''mem://logs/'', Res_Credential = []\<rparr> logType_event1]"

definition request_listen :: LogValidatorListenRequest where
  "request_listen = \<lparr>Listen_Source = \<lparr>Res_URL = ''mem://logs/'', Res_Credential = []\<rparr>,
     Listen_FrequencyMs = 0, Listen_Types = [logType_event1]\<rparr>"




text \<open>
  Modelled from the spec: \<open>Variables.Apply(source, target)\<close>, which is defined in
  another file of the package. The rules are evaluated in order: the value is looked
  up under \<open>From\<close> in the source (\<open>Value\<close> is used when \<open>From\<close> is empty) and written to
  the target under \<open>Name\<close>, without a leading \<open>->\<close>; a required rule fails when the
  value is absent or empty, and the failure of a rule ends the whole \<open>Apply\<close> with an
  error; later rules see earlier writes when source and target are the same map
  (\<open>same\<close>). Keys are plain keys here, without dotted paths or templates.
\<close>

fun Apply_rules :: "bool \<Rightarrow> Variables \<Rightarrow> State \<Rightarrow> State \<Rightarrow> State \<times> error option" where
  "Apply_rules same [] source target = (target, None)"
| "Apply_rules same (rule # rules) source target =
     (let resolved = (if Var_From rule = [] then Some (Str (Var_Value rule))
                      else source (Var_From rule));
          name = (if HasPrefix (Var_Name rule) ''->'' then drop 2 (Var_Name rule)
                  else Var_Name rule)
      in if Var_Required rule \<and> (resolved = None \<or> resolved = Some (Str [])) then
           (target, Some (Err (''variable '' @ name @ '' is required'')))
         else
           (let target1 = (case resolved of None \<Rightarrow> target | Some v \<Rightarrow> target(name \<mapsto> v))
            in Apply_rules same rules (if same then target1 else source) target1))"

text \<open>
  \<open>spec_externals\<close>: \<open>plain_externals\<close> with these bindings; a workflow without tasks
  whose \<open>Post\<close> requires a key that no state has; a request to run it.
\<close>

definition spec_externals :: externals where
  "spec_externals =
     plain_externals\<lparr>Apply := Apply_rules False,
                      ApplySelf := (\<lambda>rules state. Apply_rules True rules state state)\<rparr>"

definition workflow_post_required :: Workflow where
  "workflow_post_required =
     \<lparr>Workflow_Name = ''w'', Workflow_SourceURL = ''mem://w.csv'', Workflow_Data = [],
      Workflow_Init = [],
      Workflow_Post = [\<lparr>Var_Name = ''out'', Var_From = ''missing'', Var_Value = [],
                        Var_Required = True\<rparr>],
      Workflow_Tasks = [], Workflow_SleepInMs = 0\<rparr>"

definition request_w :: WorkflowRunRequest where
  "request_w = \<lparr>Req_Name = ''w'', Req_WorkflowURL = [], Req_Tasks = [],
     Req_Params = [], Req_PublishParameters = False, Req_Async = False\<rparr>"

definition state_before_Post :: State where
  "state_before_Post = [''ownerURL'' \<mapsto> Str ''mem://w.csv'', ''data'' \<mapsto> Obj [],
     ''params'' \<mapsto> Obj []]"

section \<open>Properties of the library functions\<close>

lemma Split_not_Nil: "Split s c \<noteq> []"
  by (induction s) auto

lemma Split_no_separator: "c \<notin> set s \<Longrightarrow> Split s c = [s]"
  by (induction s) auto

lemma Contains_one: "Contains s [c] = (c \<in> set s)"
proof (induction s)
  case Nil
  show ?case by simp
next
  case (Cons x xs)
  then show ?case by (cases xs) auto
qed

lemma Split_first: "hd (Split s c) = takeWhile (\<lambda>x. x \<noteq> c) s"
  by (induction s) auto

lemma Split_nth0: "Split s c ! 0 = takeWhile (\<lambda>x. x \<noteq> c) s"
  using Split_first[of s c] Split_not_Nil[of s c] by (simp add: hd_conv_nth)

lemma Split_tail: "c \<in> set s \<Longrightarrow> tl (Split s c) = Split (tl (dropWhile (\<lambda>x. x \<noteq> c) s)) c"
  by (induction s) auto

lemma Split_nth1:
  assumes "c \<in> set s"
  shows "Split s c ! Suc 0 = takeWhile (\<lambda>x. x \<noteq> c) (tl (dropWhile (\<lambda>x. x \<noteq> c) s))"
proof -
  have "Split s c ! Suc 0 = tl (Split s c) ! 0"
    using Split_not_Nil[of s c] by (cases "Split s c") auto
  then show ?thesis using assms by (simp add: Split_tail Split_nth0)
qed

text \<open>
  A text with the separator splits into two pieces at least, so \<open>fragments[1]\<close> of
  \<open>evaluateRunCriteria\<close> is in range.
\<close>

lemma Split_two: "c \<in> set s \<Longrightarrow> 2 \<le> length (Split s c)"
proof -
  assume "c \<in> set s"
  then have "tl (Split s c) \<noteq> []" by (simp add: Split_tail Split_not_Nil)
  then show ?thesis by (cases "Split s c") (auto simp: Suc_le_eq)
qed

section \<open>The task selector\<close>

text \<open>
  Whatever the request, \<open>isTaskAllowed\<close> returns no map of allowed actions: an entry
  with \<open>"="\<close> is never split, and an entry without it splits into one piece.
\<close>

lemma isTaskAllowed_entries_no_actions: "snd (isTaskAllowed_entries X name tasks) = None"
  by (induction tasks) (auto simp: Let_def Contains_one Split_no_separator)

lemma isTaskAllowed_no_actions: "snd (isTaskAllowed X candidate request) = None"
  by (simp add: isTaskAllowed_def isTaskAllowed_entries_no_actions)

text \<open>
  C1. The claim: with \<open>req.Tasks\<close> a list of entries \<open>name\<close> or \<open>name=idx1:idx2:...\<close>, a
  task is allowed when an entry has its name, and the indices of that entry restrict
  the actions that run. On the code, the task \<open>T1\<close> with the actions \<open>A0\<close>, \<open>A1\<close>, \<open>A2\<close>
  under the selector \<open>"T1=0:2"\<close> is not allowed at all, as the entry is compared whole
  with the name of the task; \<open>runTask\<close> returns at once and runs none of the actions.
\<close>

theorem isTaskAllowed_indexed_entry_rejected:
  "isTaskAllowed X task_T1 request_T1_0_2 = (False, None)
   \<and> runTask X state workflow task_T1 request_T1_0_2 =
       (state('':task'' \<mapsto> Opaque ''T1''), None)"
  by (simp add: runTask_def isTaskAllowed_def task_T1_def request_T1_0_2_def Let_def)

section \<open>Registration\<close>

text \<open>
  C3, as the claim has it: registering another workflow under a name that is taken is
  rejected. On the code, \<open>workflow_b\<close> registered over \<open>workflow_a\<close> of the same name is
  accepted and replaces it.
\<close>

theorem Register_duplicate_counterexample:
  "Workflow_Name workflow_b = Workflow_Name workflow_a \<and> workflow_b \<noteq> workflow_a
   \<and> snd (Register plain_externals [''w'' \<mapsto> workflow_a] workflow_b) = None
   \<and> fst (Register plain_externals [''w'' \<mapsto> workflow_a] workflow_b) ''w'' = Some workflow_b"
  by (simp add: Register_def plain_externals_def workflow_a_def workflow_b_def task_T1_def)

text \<open>
  C3, amended: \<open>Register\<close> returns the error of the validation and no other; a valid
  workflow is stored under its name, in the place of any workflow that had the name,
  and an invalid one leaves the registry as it was.
\<close>

theorem Register_replaces:
  "snd (Register X registry workflow) = Validate X workflow
   \<and> (Validate X workflow = None \<longrightarrow>
        fst (Register X registry workflow) = registry(Workflow_Name workflow \<mapsto> workflow))
   \<and> (Validate X workflow \<noteq> None \<longrightarrow> fst (Register X registry workflow) = registry)"
  by (auto simp: Register_def split: option.splits)

theorem Register_replaces_witness:
  "Validate plain_externals workflow_b = None
   \<and> snd (Register plain_externals [''w'' \<mapsto> workflow_a] workflow_b) = None
   \<and> fst (Register plain_externals [''w'' \<mapsto> workflow_a] workflow_b) = [''w'' \<mapsto> workflow_b]"
  using Register_replaces[of plain_externals "[''w'' \<mapsto> workflow_a]" workflow_b]
  by (simp add: plain_externals_def workflow_b_def workflow_a_def)

section \<open>Run criteria\<close>

text \<open>
  C9, as the claim has it: the expected operand is the part after the colon. On the
  code, the criterion \<open>1:1:2\<close> compares \<open>1\<close> with \<open>1\<close> and holds; with the part after the
  colon, \<open>1:2\<close>, as expected operand it does not.
\<close>

theorem evaluateRunCriteria_second_colon_counterexample:
  "evaluateRunCriteria plain_externals Map.empty ''1:1:2'' = (True, None)
   \<and> spec_evaluateRunCriteria plain_externals Map.empty ''1:1:2'' = (False, None)"
  by (simp add: evaluateRunCriteria_def spec_evaluateRunCriteria_def plain_externals_def Trim_def)

text \<open>
  C9, amended: the empty criterion is eligible with no error; a criterion without a
  colon gives an error; otherwise the actual operand is the text before the first
  colon and the expected operand the text between the first colon and the second (or
  the end), each trimmed and expanded, and the result is the validator's check of the
  expected against the actual operand. What follows a second colon is not read.
\<close>

theorem evaluateRunCriteria_operands:
  "evaluateRunCriteria X state [] = (True, None)
   \<and> (criteria \<noteq> [] \<and> CHR '':'' \<notin> set criteria \<longrightarrow>
        evaluateRunCriteria X state criteria =
          (False, Some (Err (''Run criteria needs to have colon: but had: '' @ criteria))))
   \<and> (CHR '':'' \<in> set criteria \<longrightarrow>
        evaluateRunCriteria X state criteria =
          Check X
            (Expand X state (TrimSpace X
               (takeWhile (\<lambda>c. c \<noteq> CHR '':'') (tl (dropWhile (\<lambda>c. c \<noteq> CHR '':'') criteria)))))
            (Expand X state (TrimSpace X (takeWhile (\<lambda>c. c \<noteq> CHR '':'') criteria))))"
  by (auto simp: evaluateRunCriteria_def Contains_one Split_nth0 Split_nth1 Let_def)

theorem evaluateRunCriteria_operands_witness:
  "''1''  \<noteq> [] \<and> CHR '':'' \<notin> set ''1'' \<and> CHR '':'' \<in> set '' a : a :b''
   \<and> evaluateRunCriteria plain_externals Map.empty ''1'' =
       (False, Some (Err ''Run criteria needs to have colon: but had: 1''))
   \<and> evaluateRunCriteria plain_externals Map.empty '' a : a :b'' = (True, None)"
  using evaluateRunCriteria_operands[of plain_externals Map.empty "''1''"]
    evaluateRunCriteria_operands[of plain_externals Map.empty "'' a : a :b''"]
  by (simp add: plain_externals_def Trim_def)

section \<open>The queue and the index of a log file\<close>

text \<open>
  C7. On a log file with records in its queue, \<open>ShiftLogRecordByIndex(key)\<close> returns
  the record that \<open>IndexedRecords\<close> holds under the key, and the queue keeps its other
  records in their order (the returned record is no longer in it); when the key is
  absent it returns the head of the queue and the queue keeps its tail.
\<close>

theorem ShiftLogRecordByIndex_result:
  assumes "Records f \<noteq> []"
  shows "(\<forall>r. IndexedRecords f key = Some r \<longrightarrow>
            ShiftLogRecordByIndex f key =
              (Some r, f\<lparr>Records := filter (\<lambda>candidate. candidate \<noteq> r) (Records f)\<rparr>)
            \<and> r \<notin> set (Records (snd (ShiftLogRecordByIndex f key))))
         \<and> (IndexedRecords f key = None \<longrightarrow>
              ShiftLogRecordByIndex f key = (Some (hd (Records f)), f\<lparr>Records := tl (Records f)\<rparr>)
              \<and> Records f = hd (Records f) # Records (snd (ShiftLogRecordByIndex f key)))"
  using assms by (auto simp: ShiftLogRecordByIndex_def)

theorem ShiftLogRecordByIndex_result_witness:
  "Records file_ABC \<noteq> [] \<and> IndexedRecords file_ABC ''B'' = Some 1
   \<and> fst (ShiftLogRecordByIndex file_ABC ''B'') = Some 1
   \<and> Records (snd (ShiftLogRecordByIndex file_ABC ''B'')) = [0, 2]
   \<and> IndexedRecords file_ABC ''Z'' = None
   \<and> fst (ShiftLogRecordByIndex file_ABC ''Z'') = Some 0
   \<and> Records (snd (ShiftLogRecordByIndex file_ABC ''Z'')) = [1, 2]"
  using ShiftLogRecordByIndex_result[of file_ABC "''B''"]
    ShiftLogRecordByIndex_result[of file_ABC "''Z''"]
  by (simp add: file_ABC_def file_empty_def)

text \<open>
  C2, as the claim has it: after any sequence of the three operations every indexed
  record is in the queue. On the code, after \<open>PushLogRecord\<close> of a record with the index
  value \<open>A\<close> and a \<open>ShiftLogRecord\<close>, the queue is empty and \<open>IndexedRecords\<close> still holds
  the record under \<open>A\<close>.
\<close>

theorem IndexedRecords_stale_counterexample:
  "map_sum id (\<lambda>f. (Records f, IndexedRecords f ''A''))
     (LogFile_run plain_logenv heap_ABC file_empty [Push 0, Shift]) = Inr ([], Some 0)"
  by (simp add: plain_logenv_def heap_ABC_def file_empty_def logType_event1_def PushLogRecord_def
      deref_def matchLogIndex_def first_word_expr_def ShiftLogRecord_def Let_def)

text \<open>
  \<open>PushLogRecord\<close> keeps every indexed record in the queue; the two shifts leave
  \<open>IndexedRecords\<close> as it is.
\<close>

lemma PushLogRecord_Inr:
  "r < length h \<Longrightarrow> \<exists>f1. PushLogRecord E h f r = Inr f1"
  by (auto simp: PushLogRecord_def deref_def Let_def split: sum.splits)

lemma PushLogRecord_fields:
  assumes "PushLogRecord E h f r = Inr f1"
  shows "Records f1 = Records f @ [r]"
    and "IndexedRecords f1 key = Some r' \<Longrightarrow> IndexedRecords f key = Some r' \<or> r' = r"
  using assms
  by (auto simp: PushLogRecord_def Let_def split: sum.splits if_splits)

lemma PushLogRecord_indexed:
  assumes "PushLogRecord E h f r = Inr f1" and "indexed_in_Records f"
  shows "indexed_in_Records f1"
  unfolding indexed_in_Records_def
proof (intro allI impI)
  fix key r' assume "IndexedRecords f1 key = Some r'"
  then have "IndexedRecords f key = Some r' \<or> r' = r"
    using PushLogRecord_fields(2)[OF assms(1)] by blast
  then show "r' \<in> set (Records f1)"
    using assms(2) PushLogRecord_fields(1)[OF assms(1)] by (auto simp: indexed_in_Records_def)
qed

lemma Shift_IndexedRecords:
  "IndexedRecords (snd (ShiftLogRecord f)) = IndexedRecords f"
  "IndexedRecords (snd (ShiftLogRecordByIndex f key)) = IndexedRecords f"
  by (auto simp: ShiftLogRecord_def ShiftLogRecordByIndex_def split: option.splits)

lemma LogFile_step_indexed:
  assumes "LogFile_step E h f operation = Inr f1" and "IndexedRecords f1 key = Some r"
  shows "IndexedRecords f key = Some r \<or> operation = Push r"
proof (cases operation)
  case (Push r')
  then show ?thesis using assms PushLogRecord_fields(2)[of E h f r' f1 key r] by auto
next
  case Shift
  then show ?thesis using assms by (auto simp: Shift_IndexedRecords)
next
  case (ShiftByIndex k)
  then show ?thesis using assms by (auto simp: Shift_IndexedRecords)
qed

lemma LogFile_run_total:
  "\<forall>r. Push r \<in> set operations \<longrightarrow> r < length h \<Longrightarrow> \<exists>f'. LogFile_run E h f operations = Inr f'"
proof (induction operations arbitrary: f)
  case Nil
  show ?case by simp
next
  case (Cons operation operations)
  have "\<exists>f1. LogFile_step E h f operation = Inr f1"
  proof (cases operation)
    case (Push r)
    then show ?thesis using Cons.prems PushLogRecord_Inr[of r h E f] by auto
  qed auto
  then obtain f1 where "LogFile_step E h f operation = Inr f1" ..
  then show ?case using Cons.IH[of f1] Cons.prems by auto
qed

lemma LogFile_run_indexed:
  "LogFile_run E h f operations = Inr f' \<Longrightarrow> IndexedRecords f' key = Some r \<Longrightarrow>
   IndexedRecords f key = Some r \<or> Push r \<in> set operations"
proof (induction operations arbitrary: f)
  case Nil
  then show ?case by simp
next
  case (Cons operation operations)
  from Cons.prems(1) obtain f1 where step: "LogFile_step E h f operation = Inr f1"
    and run: "LogFile_run E h f1 operations = Inr f'"
    by (auto split: sum.splits)
  from Cons.IH[OF run Cons.prems(2)] have "IndexedRecords f1 key = Some r \<or> Push r \<in> set operations" .
  then show ?case using LogFile_step_indexed[OF step] by auto
qed

lemma LogFile_run_pushes:
  "LogFile_run E h f operations = Inr f' \<Longrightarrow> \<forall>operation \<in> set operations. \<exists>r. operation = Push r \<Longrightarrow>
   indexed_in_Records f \<Longrightarrow> indexed_in_Records f'"
proof (induction operations arbitrary: f)
  case Nil
  then show ?case by simp
next
  case (Cons operation operations)
  from Cons.prems(1) obtain f1 where step: "LogFile_step E h f operation = Inr f1"
    and run: "LogFile_run E h f1 operations = Inr f'"
    by (auto split: sum.splits)
  from Cons.prems(2) obtain r where "operation = Push r" by auto
  with step Cons.prems(3) have "indexed_in_Records f1"
    using PushLogRecord_indexed by auto
  then show ?case using Cons.IH[OF run] Cons.prems(2) by auto
qed

text \<open>
  C2, amended: a sequence of the three operations whose pushed pointers are valid runs
  to its end, and every record that \<open>IndexedRecords\<close> holds afterwards was held under the
  same key before the sequence or has been pushed by it (it need not be in the queue
  any more, as no operation removes a key); after pushes alone, on a file whose
  indexed records were all in the queue, they all are in the queue still.
\<close>

theorem LogFile_operations_indexed:
  assumes "\<forall>r. Push r \<in> set operations \<longrightarrow> r < length h"
  shows "\<exists>f'. LogFile_run E h f operations = Inr f'
           \<and> (\<forall>key r. IndexedRecords f' key = Some r \<longrightarrow>
                  IndexedRecords f key = Some r \<or> Push r \<in> set operations)
           \<and> ((\<forall>operation \<in> set operations. \<exists>r. operation = Push r) \<and> indexed_in_Records f \<longrightarrow>
                  indexed_in_Records f')"
proof -
  from LogFile_run_total[OF assms] obtain f' where run: "LogFile_run E h f operations = Inr f'" ..
  show ?thesis using run LogFile_run_indexed[OF run] LogFile_run_pushes[OF run] by blast
qed

theorem LogFile_operations_indexed_witness:
  "indexed_in_Records file_empty
   \<and> (\<exists>f'. LogFile_run plain_logenv heap_ABC file_empty [Push 0, Push 1] = Inr f'
          \<and> indexed_in_Records f' \<and> Records f' = [0, 1])"
proof -
  have valid: "\<forall>r. Push r \<in> set [Push 0, Push 1] \<longrightarrow> r < length heap_ABC"
    by (simp add: heap_ABC_def)
  have start: "indexed_in_Records file_empty"
    by (simp add: indexed_in_Records_def file_empty_def)
  have run: "LogFile_run plain_logenv heap_ABC file_empty [Push 0, Push 1] =
      Inr (file_empty\<lparr>Records := [0, 1], IndexedRecords := [''A'' \<mapsto> 0, ''B'' \<mapsto> 1]\<rparr>)"
    by (simp add: plain_logenv_def heap_ABC_def file_empty_def logType_event1_def
        PushLogRecord_def deref_def matchLogIndex_def first_word_expr_def Let_def)
  from LogFile_operations_indexed[OF valid, of plain_logenv file_empty] start
  obtain f' where result: "LogFile_run plain_logenv heap_ABC file_empty [Push 0, Push 1] = Inr f'"
    and indexed: "indexed_in_Records f'"
    by auto
  from result have "Records f' = [0, 1]"
    unfolding run by auto
  with start result indexed show ?thesis by blast
qed

section \<open>Reset and listen\<close>

lemma logTypeMetaKey_inj: "logTypeMetaKey a = logTypeMetaKey b \<longleftrightarrow> a = b"
  by (simp add: logTypeMetaKey_def)

lemma LF_Name_reset_file: "LF_Name (reset_file f) = LF_Name f"
  by (simp add: reset_file_def)

lemma meta_file_names_reset:
  "state (logTypeMetaKey n) = Some m \<Longrightarrow>
   meta_file_names (state(logTypeMetaKey n \<mapsto> reset_meta 1 m)) n' = meta_file_names state n'"
  by (auto simp: meta_file_names_def reset_meta_def LF_Name_reset_file logTypeMetaKey_inj o_def)

lemma reset_types_step:
  "state (logTypeMetaKey n) = Some m \<Longrightarrow>
   reset_types state (n # ns) response =
     reset_types (state(logTypeMetaKey n \<mapsto> reset_meta 1 m)) ns (response @ meta_file_names state n)"
  by (simp add: reset_meta_def meta_file_names_def)

lemma reset_types_response:
  "snd (reset_types state names response) = response @ concat (map (meta_file_names state) names)"
proof (induction names arbitrary: state response)
  case Nil
  show ?case by simp
next
  case (Cons n ns)
  show ?case
  proof (cases "state (logTypeMetaKey n)")
    case None
    then show ?thesis using Cons.IH[of state response] by (simp add: meta_file_names_def)
  next
    case (Some m)
    have eq: "map (meta_file_names (state(logTypeMetaKey n \<mapsto> reset_meta 1 m))) ns
              = map (meta_file_names state) ns"
      using meta_file_names_reset[of state n m] Some by simp
    have step: "reset_types state (n # ns) response =
        reset_types (state(logTypeMetaKey n \<mapsto> reset_meta 1 m)) ns
          (response @ meta_file_names state n)"
      using reset_types_step[of state n m ns response] Some by simp
    show ?thesis
      unfolding step Cons.IH eq by simp
  qed
qed

lemma reset_meta_add: "reset_meta a (reset_meta b m) = reset_meta (a + b) m"
  by (simp add: reset_meta_def funpow_add o_def)

lemma reset_meta_0: "reset_meta 0 m = m"
  by (simp add: reset_meta_def)

lemma reset_types_state:
  "fst (reset_types state names response) key =
     map_option (reset_meta (count_list (map logTypeMetaKey names) key)) (state key)"
proof (induction names arbitrary: state response)
  case Nil
  show ?case by (simp add: reset_meta_0 option.map_ident map_option.identity cong: option.map_cong)
next
  case (Cons n ns)
  show ?case
  proof (cases "state (logTypeMetaKey n)")
    case None
    then show ?thesis using Cons.IH[of state response] by (cases "key = logTypeMetaKey n") auto
  next
    case (Some m)
    have step: "reset_types state (n # ns) response =
        reset_types (state(logTypeMetaKey n \<mapsto> reset_meta 1 m)) ns
          (response @ meta_file_names state n)"
      using reset_types_step[of state n m ns response] Some by simp
    show ?thesis
      unfolding step Cons.IH
      using Some by (auto simp: reset_meta_add)
  qed
qed

text \<open>
  C10. \<open>reset\<close> never returns an error. The response lists, for each name of the
  request in turn, the names of the log files of the type registered under it, and
  nothing for a name that is not registered. In the state, a key that holds no meta
  holds none afterwards, and each log file of a registered type has been reset as many
  times as the request names its type: a reset sets the position to the size and the
  line to the number of queued records, and empties the queue.
\<close>

theorem reset_result:
  "snd (snd (reset state request)) = None
   \<and> Reset_LogFiles (fst (snd (reset state request))) =
       concat (map (meta_file_names state) (Reset_LogTypes request))
   \<and> (\<forall>key. fst (reset state request) key =
         map_option (reset_meta (count_list (map logTypeMetaKey (Reset_LogTypes request)) key))
           (state key))
   \<and> reset_file logFile =
       logFile\<lparr>ProcessingState := \<lparr>PS_Line = int (length (Records logFile)),
                                    PS_Position = Size logFile\<rparr>,
               Records := []\<rparr>"
  using reset_types_response[of state "Reset_LogTypes request" "[]"]
    reset_types_state[of state "Reset_LogTypes request" "[]"]
  by (simp add: reset_def split_beta reset_file_def)

text \<open>The first loop of \<open>listen\<close> finds a requested type that is registered.\<close>

lemma listen_registered_Some:
  "logType \<in> set logTypes \<Longrightarrow> state (logTypeMetaKey (LT_Name logType)) \<noteq> None \<Longrightarrow>
   listen_registered state logTypes \<noteq> None"
  by (induction logTypes) auto

text \<open>
  C8. A \<open>listen\<close> call that names a log type whose key is in the state of the service
  already returns an error and no response, leaves the state and the store of records
  as they were, and starts no tailer.
\<close>

theorem listen_again_rejected:
  assumes "logType \<in> set (Listen_Types request)"
    and "state (logTypeMetaKey (LT_Name logType)) \<noteq> None"
  shows "L_error (listen E h state request) \<noteq> None
         \<and> L_state (listen E h state request) = state
         \<and> L_heap (listen E h state request) = h
         \<and> \<not> L_tailer_started (listen E h state request)
         \<and> L_response (listen E h state request) = None"
  using listen_registered_Some[of logType "Listen_Types request" state] assms
  by (auto simp: listen_def split: sum.splits option.splits)

theorem listen_again_rejected_witness:
  "logType_event1 \<in> set (Listen_Types request_listen)
   \<and> state_listening (logTypeMetaKey (LT_Name logType_event1)) \<noteq> None
   \<and> L_error (listen plain_logenv [] state_listening request_listen) =
       Some (Err ''listener has been already register for event1'')
   \<and> L_state (listen plain_logenv [] state_listening request_listen) = state_listening
   \<and> \<not> L_tailer_started (listen plain_logenv [] state_listening request_listen)"
  using listen_again_rejected[of logType_event1 request_listen state_listening plain_logenv "[]"]
  by (simp add: request_listen_def state_listening_def logType_event1_def listen_def
      plain_logenv_def)

text \<open>The same request on the empty state registers the type and starts the tailer.\<close>

lemma listen_first_time:
  "L_error (listen plain_logenv [] Map.empty request_listen) = None
   \<and> L_tailer_started (listen plain_logenv [] Map.empty request_listen)
   \<and> L_state (listen plain_logenv [] Map.empty request_listen) = state_listening"
  by (simp add: request_listen_def state_listening_def logType_event1_def listen_def
      plain_logenv_def readLogFiles_def listenForChanges_def Let_def)

section \<open>Shrunk and rewritten log files\<close>

lemma HasPrefix_take: "HasPrefix s p \<longleftrightarrow> take (length p) s = p"
  by (induction s p rule: HasPrefix.induct) auto

lemma PS_Reset_eq: "PS_Reset s = \<lparr>PS_Line = 0, PS_Position = 0\<rparr>"
  by (simp add: PS_Reset_def)

lemma readLogFile_content_snd:
  "snd (readLogFile_content E h f candidate content) =
     (if length content > 0
      then readLogRecords E h (fst (readLogFile_content E h f candidate content)) content
      else Inr (h, fst (readLogFile_content E h f candidate content)))"
  by (simp add: readLogFile_content_def Let_def)

text \<open>
  The body of \<open>readLogFile\<close> after the download: a shorter content, or a longer file
  whose content does not start with the cached content, resets the file, and the
  records are read from the start of the new content.
\<close>

lemma readLogFile_content_reset:
  assumes "length content < length (LF_Content f)
           \<or> (Size f < SO_Size candidate \<and> take (length (LF_Content f)) content \<noteq> LF_Content f)"
  shows "readLogFile_content E h f candidate content =
          (let g = f\<lparr>LF_Content := content, Size := int (length content),
                      LastModified := SO_ModTime candidate,
                      ProcessingState := \<lparr>PS_Line = 0, PS_Position = 0\<rparr>\<rparr>
           in (g, if content = [] then Inr (h, g) else readLogRecords_loop E content [] 0 0 h g))"
proof -
  define g where "g = f\<lparr>LF_Content := content, Size := int (length content),
                        LastModified := SO_ModTime candidate,
                        ProcessingState := \<lparr>PS_Line = 0, PS_Position = 0\<rparr>\<rparr>"
  have file_eq: "fst (readLogFile_content E h f candidate content) = g"
    using assms unfolding g_def
    by (cases f) (auto simp: readLogFile_content_def Reset_def PS_Reset_eq HasPrefix_take Let_def)
  have records: "snd (readLogFile_content E h f candidate content) =
      (if content = [] then Inr (h, g) else readLogRecords E h g content)"
    unfolding readLogFile_content_snd file_eq by simp
  have "readLogRecords E h g content = readLogRecords_loop E content [] 0 0 h g"
    by (simp add: readLogRecords_def g_def)
  with file_eq records show ?thesis
    unfolding g_def[symmetric] by (simp add: prod_eq_iff Let_def)
qed

text \<open>
  C6. \<open>readLogFile\<close> on a file that the service holds for the type, whose size or
  modification time differs from the cached one and whose download succeeds: when the
  downloaded content is shorter than the cached content, or else when the size of the
  file is greater than the cached size and the downloaded content does not start with
  the cached content, the log file is reset. The file stored back in the state of the
  service has the new content, the size of the new content, the modification time of
  the file, and the records read from position 0 and line 0 of the new content; an
  error of the reading is returned with the reset file stored.
\<close>

theorem readLogFile_reset:
  assumes registered: "state (logTypeMetaKey (LT_Name logType)) = Some logTypeMeta"
    and cached: "map_of (LogFiles logTypeMeta) (snd (URLSplit E (SO_URL candidate))) = Some f"
    and changed: "Size f \<noteq> SO_Size candidate
                  \<or> Unix (LastModified f) \<noteq> Unix (SO_ModTime candidate)"
    and downloaded: "Download service candidate = Inr content"
    and shrunk_or_rewritten:
      "length content < length (LF_Content f)
       \<or> (Size f < SO_Size candidate \<and> take (length (LF_Content f)) content \<noteq> LF_Content f)"
  shows "readLogFile E service h state source candidate logType =
          (let key = logTypeMetaKey (LT_Name logType);
               name = snd (URLSplit E (SO_URL candidate));
               g = f\<lparr>LF_Content := content, Size := int (length content),
                      LastModified := SO_ModTime candidate,
                      ProcessingState := \<lparr>PS_Line = 0, PS_Position = 0\<rparr>\<rparr>
           in if content = [] then (h, store_file state key name g, None)
              else
                (case readLogRecords_loop E content [] 0 0 h g of
                   Inl err \<Rightarrow> (h, store_file state key name g, Some err)
                 | Inr (h1, g1) \<Rightarrow> (h1, store_file state key name g1, None)))"
proof -
  let ?key = "logTypeMetaKey (LT_Name logType)"
  let ?name = "snd (URLSplit E (SO_URL candidate))"
  have unfolded: "readLogFile E service h state source candidate logType =
      (case readLogFile_content E h f candidate content of
         (logFile3, Inl err) \<Rightarrow> (h, store_file state ?key ?name logFile3, Some err)
       | (logFile3, Inr (h1, logFile4)) \<Rightarrow> (h1, store_file state ?key ?name logFile4, None))"
    unfolding readLogFile_def using registered cached changed downloaded
    by (auto simp: Let_def)
  show ?thesis
    unfolding unfolded readLogFile_content_reset[OF shrunk_or_rewritten, of E h]
    by (simp add: Let_def split: sum.splits)
qed

theorem readLogFile_reset_witness:
  "state_old (logTypeMetaKey (LT_Name logType_event1)) \<noteq> None
   \<and> file_of state_old (logTypeMetaKey ''event1'') ''e1.log'' = Some file_old
   \<and> Size file_old \<noteq> SO_Size object_new
   \<and> Download storage_new object_new = Inr content_new
   \<and> length content_new < length (LF_Content file_old)
   \<and> (case readLogFile plain_logenv storage_new heap_ABC state_old
              \<lparr>Res_URL = ''mem://logs/'', Res_Credential = []\<rparr> object_new logType_event1 of
         (h1, state1, err) \<Rightarrow>
           (drop 3 h1,
            map_option (\<lambda>g. (LF_Content g, Size g, LastModified g, ProcessingState g, Records g,
                              IndexedRecords g ''C''))
              (file_of state1 (logTypeMetaKey ''event1'') ''e1.log''),
            err)) =
       ([\<lparr>Rec_URL = ''mem://logs/e1.log'', Rec_Number = 1, Rec_Line = ''C third''\<rparr>],
        Some (content_new, 9, 7, \<lparr>PS_Line = 1, PS_Position = 8\<rparr>, [1, 3], Some 3),
        None)"
proof -
  let ?meta = "\<lparr>Meta_Source = \<lparr>Res_URL = ''mem://logs/'', Res_Credential = []\<rparr>,
         Meta_LogType = logType_event1, LogFiles = [(''e1.log'', file_old)]\<rparr>"
  have registered: "state_old (logTypeMetaKey (LT_Name logType_event1)) = Some ?meta"
    by (simp add: state_old_def logType_event1_def)
  have name: "snd (URLSplit plain_logenv (SO_URL object_new)) = ''e1.log''"
    by (simp add: plain_logenv_def object_new_def)
  have cached: "map_of (LogFiles ?meta) (snd (URLSplit plain_logenv (SO_URL object_new))) = Some file_old"
    unfolding name by simp
  have changed: "Size file_old \<noteq> SO_Size object_new
                  \<or> Unix (LastModified file_old) \<noteq> Unix (SO_ModTime object_new)"
    by (simp add: file_old_def object_new_def)
  have downloaded: "Download storage_new object_new = Inr content_new"
    by (simp add: storage_new_def)
  have shorter: "length content_new < length (LF_Content file_old)
       \<or> (Size file_old < SO_Size object_new
           \<and> take (length (LF_Content file_old)) content_new \<noteq> LF_Content file_old)"
    by (simp add: content_new_def file_old_def)
  note run = readLogFile_reset[where state = state_old and logType = logType_event1
      and logTypeMeta = ?meta and E = plain_logenv and candidate = object_new and f = file_old
      and service = storage_new and content = content_new and h = heap_ABC
      and source = "\<lparr>Res_URL = ''mem://logs/'', Res_Credential = []\<rparr>",
      OF registered cached changed downloaded shorter]
  have cached': "file_of state_old (logTypeMetaKey ''event1'') ''e1.log'' = Some file_old"
    by (simp add: file_of_def state_old_def)
  show ?thesis
    unfolding run name using registered cached' downloaded
    by (simp add: content_new_def file_old_def file_empty_def heap_ABC_def plain_logenv_def
      logType_event1_def string_of_byte_def Trim_def alloc_def PushLogRecord_def deref_def
      matchLogIndex_def first_word_expr_def Update_def Let_def object_new_def
      store_file_def state_old_def files_put_def file_of_def logTypeMetaKey_def)
qed

section \<open>The error of the workflow's Post bindings\<close>

text \<open>
  C4. The claim: when applying \<open>workflow.Post\<close> fails, the run returns an error. On the
  code, the run of a registered workflow whose \<open>Post\<close> fails (the rule \<open>out\<close> is required
  and its source key is missing) returns a response and no error.
\<close>

theorem runWorkflow_Post_error_dropped:
  "Apply spec_externals (Workflow_Post workflow_post_required) state_before_Post Map.empty =
     (Map.empty, Some (Err ''variable out is required''))
   \<and> runWorkflow spec_externals [''w'' \<mapsto> workflow_post_required] ''session-1'' Map.empty request_w =
     ([''w'' \<mapsto> workflow_post_required],
      Inr \<lparr>Resp_SessionID = ''session-1'', Resp_Data = Map.empty\<rparr>)"
  by (simp add: runWorkflow_def loadWorkflowIfNeeded_def HasWorkflow_def Workflow_lookup_def
      spec_externals_def plain_externals_def workflow_post_required_def request_w_def
      state_before_Post_def buildParamsMap_def Let_def)

section \<open>Missing and mismatching log records\<close>


































end
